theory Spec2Isabelle
  imports Complex_Main
begin

section \<open>Vectors\<close>

text \<open>
  The vortex model of awebox builds CasADi expressions. A CasADi scalar expression
  denotes a real number, so scalars are modelled as \<open>real\<close> and a 3-vector
  (a position, a velocity) as a triple of reals.
\<close>

type_synonym vec3 = "real \<times> real \<times> real"

fun vadd :: "vec3 \<Rightarrow> vec3 \<Rightarrow> vec3" where
  "vadd (a1, a2, a3) (b1, b2, b3) = (a1 + b1, a2 + b2, a3 + b3)"

fun vsub :: "vec3 \<Rightarrow> vec3 \<Rightarrow> vec3" where
  "vsub (a1, a2, a3) (b1, b2, b3) = (a1 - b1, a2 - b2, a3 - b3)"

fun smul :: "vec3 \<Rightarrow> real \<Rightarrow> vec3" where
  "smul (a1, a2, a3) s = (a1 * s, a2 * s, a3 * s)"

text \<open>\<open>cas.mtimes(a.T, b)\<close> on two column 3-vectors: the dot product.\<close>

fun dot :: "vec3 \<Rightarrow> vec3 \<Rightarrow> real" where
  "dot (a1, a2, a3) (b1, b2, b3) = a1 * b1 + a2 * b2 + a3 * b3"

text \<open>
  Modelled from the spec: \<open>vect_op.cross\<close> lives in \<open>awebox.tools.vector_operations\<close>,
  which is not among the sources; the spec writes it \<open>r1 \<times> r2\<close>, the cross product.
\<close>

fun cross :: "vec3 \<Rightarrow> vec3 \<Rightarrow> vec3" where
  "cross (a1, a2, a3) (b1, b2, b3) =
     (a2 * b3 - a3 * b2, a3 * b1 - a1 * b3, a1 * b2 - a2 * b1)"

text \<open>
  Modelled from the spec: \<open>vect_op.smooth_norm\<close> is not among the sources either. The
  spec describes it as a norm "that adds a small floor to avoid non-differentiability
  at exactly zero": the root of the squared length plus a floor. The floor \<open>eps0\<close> is
  a parameter of the model, and each result below says for which floors it holds.
\<close>

definition smooth_norm :: "real \<Rightarrow> vec3 \<Rightarrow> real" where
  "smooth_norm eps0 a = sqrt (dot a a + eps0)"

text \<open>The Euclidean length, used to state bounds on the induced velocity.\<close>

definition norm3 :: "vec3 \<Rightarrow> real" where
  "norm3 a = sqrt (dot a a)"

section \<open>Errors\<close>

datatype error =
    IndexOutOfBounds          \<comment> \<open>a CasADi index outside \<open>[-len, len)\<close>\<close>
  | ReshapeMismatch           \<comment> \<open>\<open>cas.reshape\<close> to a shape with another element count\<close>
  | DimensionMismatch         \<comment> \<open>\<open>cas.horzcat\<close> of columns of different heights\<close>
  | KeyError string           \<comment> \<open>a dictionary has no such key\<close>
  | UnboundLocalError string  \<comment> \<open>a local variable is read before any assignment\<close>
  | NonFinite                 \<comment> \<open>a division by zero: the quotient is \<open>inf\<close> or \<open>nan\<close>, not a number\<close>

section \<open>The Biot-Savart kernel (biot\_savart.py)\<close>

text \<open>
  \<open>seg_data\<close> is a column of at least 11 entries: observation point, the two end
  points, the circulation and the regularisation. \<open>seg_data[i:i+3]\<close> is a slice,
  \<open>seg_data[9]\<close> and \<open>seg_data[10]\<close> are scalar reads, which fail on a shorter column.
  The code divides by \<open>den\<close> without a check; where \<open>den\<close> is zero the quotient is
  not a number, which the model reports as \<open>NonFinite\<close> instead of a velocity.
\<close>

definition slice3 :: "real list \<Rightarrow> nat \<Rightarrow> vec3" where
  "slice3 xs i = (xs ! i, xs ! (i + 1), xs ! (i + 2))"

text \<open>The column \<open>cas.vertcat(point_obs, point_1, point_2, Gamma, epsilon)\<close>.\<close>

fun seg_data_of :: "vec3 \<Rightarrow> vec3 \<Rightarrow> vec3 \<Rightarrow> real \<Rightarrow> real \<Rightarrow> real list" where
  "seg_data_of (x1, x2, x3) (p1, p2, p3) (q1, q2, q3) Gamma epsilon =
     [x1, x2, x3, p1, p2, p3, q1, q2, q3, Gamma, epsilon]"

text \<open>The value the local \<open>den\<close> of \<open>filament\<close> holds.\<close>

definition filament_den :: "real \<Rightarrow> real list \<Rightarrow> real" where
  "filament_den eps0 seg_data =
     (let point_obs = slice3 seg_data 0;
          point_1 = slice3 seg_data 3;
          point_2 = slice3 seg_data 6;
          epsilon = seg_data ! 10;
          vec_1 = vsub point_obs point_1;
          vec_2 = vsub point_obs point_2;
          vec_0 = vsub point_2 point_1;
          r1 = smooth_norm eps0 vec_1;
          r2 = smooth_norm eps0 vec_2;
          r0 = smooth_norm eps0 vec_0;
          den_ori = (r1 * r2) * (r1 * r2 + dot vec_1 vec_2);
          den_reg = (epsilon * r0) ^ 2
      in den_ori + den_reg)"

definition filament :: "real \<Rightarrow> real list \<Rightarrow> error + vec3" where
  "filament eps0 seg_data =
     (if length seg_data < 11 then Inl IndexOutOfBounds
      else
        let point_obs = slice3 seg_data 0;
            point_1 = slice3 seg_data 3;
            point_2 = slice3 seg_data 6;
            Gamma = seg_data ! 9;
            vec_1 = vsub point_obs point_1;
            vec_2 = vsub point_obs point_2;
            r1 = smooth_norm eps0 vec_1;
            r2 = smooth_norm eps0 vec_2;
            factor = Gamma / (4 * pi);
            num = r1 + r2;
            den = filament_den eps0 seg_data;
            dir = cross vec_1 vec_2;
            scale = factor * num / den
        in if den = 0 then Inl NonFinite else Inr (smul dir scale))"

text \<open>
  The kernel as the spec writes it, section 4.4:
  \<open>numerator_scale = \<Gamma>/(4\<pi>) \<cdot> (|r1| + |r2|)\<close>,
  \<open>denominator = |r1|\<cdot>|r2|\<cdot>(|r1|\<cdot>|r2| + r1\<cdot>r2) + (\<epsilon>\<cdot>|r0|)\<^sup>2\<close>,
  \<open>induced_velocity = (r1 \<times> r2) \<cdot> numerator_scale / denominator\<close>,
  with \<open>r1 = X - P1\<close>, \<open>r2 = X - P2\<close>, \<open>r0 = P2 - P1\<close> and the smoothed norm.
\<close>

definition spec_induced_velocity ::
  "real \<Rightarrow> vec3 \<Rightarrow> vec3 \<Rightarrow> vec3 \<Rightarrow> real \<Rightarrow> real \<Rightarrow> vec3" where
  "spec_induced_velocity eps0 X P1 P2 Gamma epsilon =
     (let r1 = vsub X P1; r2 = vsub X P2; r0 = vsub P2 P1;
          n1 = smooth_norm eps0 r1; n2 = smooth_norm eps0 r2; n0 = smooth_norm eps0 r0;
          numerator_scale = Gamma / (4 * pi) * (n1 + n2);
          denominator = n1 * n2 * (n1 * n2 + dot r1 r2) + (epsilon * n0) ^ 2
      in smul (cross r1 r2) (numerator_scale / denominator))"

section \<open>CasADi columns and matrices\<close>

text \<open>
  A CasADi column is modelled as a list. A scalar index may be negative and then counts
  from the end (the source itself reads \<open>regular[-1]\<close>); an index outside
  \<open>[-len, len)\<close> raises.
\<close>

definition cas_index :: "'a list \<Rightarrow> int \<Rightarrow> error + 'a" where
  "cas_index xs i =
     (let n = int (length xs)
      in if - n \<le> i \<and> i < n then Inr (xs ! nat (if i < 0 then i + n else i))
         else Inl IndexOutOfBounds)"

text \<open>A dense CasADi matrix stores its entries column by column.\<close>

record 'a mat =
  nrows :: nat
  ncols :: nat
  elems :: "'a list"

definition column :: "'a list \<Rightarrow> 'a mat" where
  "column v = \<lparr>nrows = length v, ncols = 1, elems = v\<rparr>"

text \<open>\<open>cas.reshape\<close> keeps the column-major entries and needs the same element count.\<close>

definition cas_reshape :: "'a mat \<Rightarrow> nat \<times> nat \<Rightarrow> error + 'a mat" where
  "cas_reshape m dimensions =
     (case dimensions of (r, c) \<Rightarrow>
        if nrows m * ncols m = r * c then Inr \<lparr>nrows = r, ncols = c, elems = elems m\<rparr>
        else Inl ReshapeMismatch)"

text \<open>\<open>m.T\<close>: entry \<open>(j, i)\<close> of the transpose is entry \<open>(i, j)\<close> of \<open>m\<close>.\<close>

definition mat_T :: "'a mat \<Rightarrow> 'a mat" where
  "mat_T m =
     \<lparr>nrows = ncols m, ncols = nrows m,
      elems = concat (map (\<lambda>i. map (\<lambda>j. elems m ! (i + j * nrows m)) [0..<ncols m])
                        [0..<nrows m])\<rparr>"

text \<open>\<open>m[i, j]\<close>, each index with the wrap-around of a scalar index.\<close>

definition mat_index :: "'a mat \<Rightarrow> int \<Rightarrow> int \<Rightarrow> error + 'a" where
  "mat_index m i j =
     (let r = int (nrows m); c = int (ncols m)
      in if - r \<le> i \<and> i < r \<and> - c \<le> j \<and> j < c
         then Inr (elems m ! (nat (if i < 0 then i + r else i)
                              + nat (if j < 0 then j + c else j) * nrows m))
         else Inl IndexOutOfBounds)"

text \<open>
  \<open>cas.horzcat(all_dims, all_ordered)\<close>: a matrix kept as the list of its columns gets
  one more column, which must be as high as the others (the empty start \<open>[]\<close> takes any).
\<close>

definition cas_horzcat :: "real list list \<Rightarrow> real list \<Rightarrow> error + real list list" where
  "cas_horzcat all_dims col =
     (if all_dims = [] \<or> length (hd all_dims) = length col then Inr (all_dims @ [col])
      else Inl DimensionMismatch)"

text \<open>The rows of a matrix of three columns.\<close>

fun rows3 :: "real list list \<Rightarrow> vec3 list" where
  "rows3 [xs, ys, zs] = zip xs (zip ys zs)"
| "rows3 _ = []"

fun scale_vec :: "real \<Rightarrow> vec3 \<Rightarrow> vec3" where
  "scale_vec s (a1, a2, a3) = (s * a1, s * a2, s * a3)"

section \<open>Variable names\<close>

text \<open>Python's \<open>str\<close> on an integer: decimal digits, a minus sign when negative.\<close>

definition digit_char :: "nat \<Rightarrow> char" where
  "digit_char n = ''0123456789'' ! n"

fun str_nat :: "nat \<Rightarrow> string" where
  "str_nat n = (if n < 10 then [digit_char n] else str_nat (n div 10) @ [digit_char (n mod 10)])"

definition str :: "int \<Rightarrow> string" where
  "str i = (if i < 0 then ''-'' @ str_nat (nat (- i)) else str_nat (nat i))"

text \<open>\<open>sym + dim + '_' + tip + '_' + str(period) + '_' + str(kite) + str(parent)\<close>\<close>

definition wake_var_name :: "string \<Rightarrow> string \<Rightarrow> string \<Rightarrow> int \<Rightarrow> nat \<Rightarrow> nat \<Rightarrow> string" where
  "wake_var_name symb dm tip period kite parent =
     symb @ dm @ ''_'' @ tip @ ''_'' @ str period @ ''_'' @ str (int kite) @ str (int parent)"

text \<open>\<open>'wg' + '_' + str(period) + '_' + str(kite) + str(parent)\<close>\<close>

definition gamma_name :: "int \<Rightarrow> nat \<Rightarrow> nat \<Rightarrow> string" where
  "gamma_name period kite parent =
     ''wg'' @ ''_'' @ str period @ ''_'' @ str (int kite) @ str (int parent)"

section \<open>Structural tools of the vortex model (tools.py)\<close>

definition get_wake_var_at_ndx_ddx ::
  "nat \<Rightarrow> nat \<Rightarrow> real list \<Rightarrow> bool \<Rightarrow> int \<Rightarrow> int \<Rightarrow> error + real" where
  "get_wake_var_at_ndx_ddx n_k d var start ndx ddx =
     (if start then cas_index var 0
      else
        let var_regular = drop 1 var;
            dimensions = (n_k, d)
        in case cas_reshape (column var_regular) dimensions of
             Inl e \<Rightarrow> Inl e
           | Inr var_reshape \<Rightarrow> mat_index var_reshape ndx ddx)"

definition get_time_ordered_wake_var_without_start ::
  "nat \<Rightarrow> nat \<Rightarrow> real list \<Rightarrow> error + real list" where
  "get_time_ordered_wake_var_without_start n_k d var =
     (let dimensions = (n_k, d);
          n_regular = n_k * d;
          var_regular = drop 1 var
      in case cas_reshape (column var_regular) dimensions of
           Inl e \<Rightarrow> Inl e
         | Inr var_reshape \<Rightarrow>
             (case cas_reshape (mat_T var_reshape) (n_regular, 1) of
                Inl e \<Rightarrow> Inl e
              | Inr time_ordered \<Rightarrow> Inr (rev (elems time_ordered))))"

definition get_time_ordered_wake_var_with_start ::
  "nat \<Rightarrow> nat \<Rightarrow> real list \<Rightarrow> error + real list" where
  "get_time_ordered_wake_var_with_start n_k d var =
     (case cas_index var 0 of
        Inl e \<Rightarrow> Inl e
      | Inr var_start \<Rightarrow>
          (case get_time_ordered_wake_var_without_start n_k d var of
             Inl e \<Rightarrow> Inl e
           | Inr without_start \<Rightarrow> Inr (without_start @ [var_start])))"

definition get_time_ordered_strength :: "nat \<Rightarrow> nat \<Rightarrow> real list \<Rightarrow> error + real list" where
  "get_time_ordered_strength n_k d var =
     (let dimensions = (n_k, d);
          n_regular = n_k * d;
          var_regular = var
      in case cas_reshape (column var_regular) dimensions of
           Inl e \<Rightarrow> Inl e
         | Inr var_reshape \<Rightarrow>
             (case cas_reshape (mat_T var_reshape) (n_regular, 1) of
                Inl e \<Rightarrow> Inl e
              | Inr time_ordered \<Rightarrow> Inr (rev (elems time_ordered))))"

text \<open>
  \<open>get_all_time_ordered_points_by_kite_and_tip\<close>: for each dimension, the inner loop
  over \<open>range(periods_tracked - 1)\<close>, then the most recent period with its start
  sample, then \<open>horzcat\<close>. A missing variable is a \<open>KeyError\<close>.
\<close>

fun points_period_loop ::
  "(string \<rightharpoonup> real list) \<Rightarrow> nat \<Rightarrow> nat \<Rightarrow> nat \<Rightarrow> nat \<Rightarrow> string \<Rightarrow> string
     \<Rightarrow> int list \<Rightarrow> real list \<Rightarrow> error + real list" where
  "points_period_loop variables_xd n_k d kite parent tip dm [] all_ordered = Inr all_ordered"
| "points_period_loop variables_xd n_k d kite parent tip dm (period # periods) all_ordered =
     (let var_name = wake_var_name ''w'' dm tip period kite parent
      in case variables_xd var_name of
           None \<Rightarrow> Inl (KeyError var_name)
         | Some var \<Rightarrow>
             (case get_time_ordered_wake_var_without_start n_k d var of
                Inl e \<Rightarrow> Inl e
              | Inr var_ordered \<Rightarrow>
                  points_period_loop variables_xd n_k d kite parent tip dm periods
                    (all_ordered @ var_ordered)))"

definition points_one_dim ::
  "(string \<rightharpoonup> real list) \<Rightarrow> nat \<Rightarrow> nat \<Rightarrow> nat \<Rightarrow> nat \<Rightarrow> nat \<Rightarrow> string \<Rightarrow> string
     \<Rightarrow> error + real list" where
  "points_one_dim variables_xd n_k d periods_tracked kite parent tip dm =
     (case points_period_loop variables_xd n_k d kite parent tip dm
             (map int [0..<periods_tracked - 1]) [] of
        Inl e \<Rightarrow> Inl e
      | Inr all_ordered \<Rightarrow>
          (let period = int periods_tracked - 1;
               var_name = wake_var_name ''w'' dm tip period kite parent
           in case variables_xd var_name of
                None \<Rightarrow> Inl (KeyError var_name)
              | Some var \<Rightarrow>
                  (case get_time_ordered_wake_var_with_start n_k d var of
                     Inl e \<Rightarrow> Inl e
                   | Inr var_ordered \<Rightarrow> Inr (all_ordered @ var_ordered))))"

fun points_dims_loop ::
  "(string \<rightharpoonup> real list) \<Rightarrow> nat \<Rightarrow> nat \<Rightarrow> nat \<Rightarrow> nat \<Rightarrow> nat \<Rightarrow> string
     \<Rightarrow> string list \<Rightarrow> real list list \<Rightarrow> error + real list list" where
  "points_dims_loop variables_xd n_k d periods_tracked kite parent tip [] all_dims = Inr all_dims"
| "points_dims_loop variables_xd n_k d periods_tracked kite parent tip (dm # dims) all_dims =
     (case points_one_dim variables_xd n_k d periods_tracked kite parent tip dm of
        Inl e \<Rightarrow> Inl e
      | Inr all_ordered \<Rightarrow>
          (case cas_horzcat all_dims all_ordered of
             Inl e \<Rightarrow> Inl e
           | Inr all_dims' \<Rightarrow>
               points_dims_loop variables_xd n_k d periods_tracked kite parent tip dims all_dims'))"

definition get_all_time_ordered_points_by_kite_and_tip ::
  "(string \<rightharpoonup> real list) \<Rightarrow> nat \<Rightarrow> nat \<Rightarrow> nat \<Rightarrow> nat \<Rightarrow> nat \<Rightarrow> string
     \<Rightarrow> error + vec3 list" where
  "get_all_time_ordered_points_by_kite_and_tip variables_xd n_k d periods_tracked kite parent tip =
     (case points_dims_loop variables_xd n_k d periods_tracked kite parent tip
             [''x'', ''y'', ''z''] [] of
        Inl e \<Rightarrow> Inl e
      | Inr all_dims \<Rightarrow> Inr (rows3 all_dims))"

definition get_padded_points_by_kite_and_tip ::
  "(string \<rightharpoonup> real list) \<Rightarrow> nat \<Rightarrow> nat \<Rightarrow> nat \<Rightarrow> nat \<Rightarrow> nat \<Rightarrow> string \<Rightarrow> vec3 \<Rightarrow> real
     \<Rightarrow> error + vec3 list" where
  "get_padded_points_by_kite_and_tip variables_xd n_k d periods_tracked kite parent tip
       u_vec_ref infinite_time =
     (case get_all_time_ordered_points_by_kite_and_tip variables_xd n_k d periods_tracked
             kite parent tip of
        Inl e \<Rightarrow> Inl e
      | Inr regular \<Rightarrow>
          (case cas_index regular 0 of
             Inl e \<Rightarrow> Inl e
           | Inr leading \<Rightarrow>
               (case cas_index regular (- 1) of
                  Inl e \<Rightarrow> Inl e
                | Inr trailing \<Rightarrow>
                    (let infinite_leading =
                           vadd leading (scale_vec (infinite_time * (- 1)) u_vec_ref);
                         infinite_trailing = vadd trailing (scale_vec infinite_time u_vec_ref)
                     in Inr ([infinite_leading] @ regular @ [infinite_trailing])))))"

fun strengths_period_loop ::
  "(string \<rightharpoonup> real list) \<Rightarrow> nat \<Rightarrow> nat \<Rightarrow> nat \<Rightarrow> nat \<Rightarrow> int list \<Rightarrow> real list
     \<Rightarrow> error + real list" where
  "strengths_period_loop variables_xl n_k d kite parent [] all_ordered = Inr all_ordered"
| "strengths_period_loop variables_xl n_k d kite parent (period # periods) all_ordered =
     (let var_name = gamma_name period kite parent
      in case variables_xl var_name of
           None \<Rightarrow> Inl (KeyError var_name)
         | Some var \<Rightarrow>
             (case get_time_ordered_strength n_k d var of
                Inl e \<Rightarrow> Inl e
              | Inr var_ordered \<Rightarrow>
                  strengths_period_loop variables_xl n_k d kite parent periods
                    (all_ordered @ var_ordered)))"

definition get_all_time_ordered_strengths_by_kite ::
  "(string \<rightharpoonup> real list) \<Rightarrow> nat \<Rightarrow> nat \<Rightarrow> nat \<Rightarrow> nat \<Rightarrow> nat \<Rightarrow> error + real list" where
  "get_all_time_ordered_strengths_by_kite variables_xl n_k d periods_tracked kite parent =
     strengths_period_loop variables_xl n_k d kite parent (map int [0..<periods_tracked]) []"

definition get_padded_strengths_by_kite ::
  "(string \<rightharpoonup> real list) \<Rightarrow> nat \<Rightarrow> nat \<Rightarrow> nat \<Rightarrow> nat \<Rightarrow> nat \<Rightarrow> error + real list" where
  "get_padded_strengths_by_kite variables_xl n_k d periods_tracked kite parent =
     (case get_all_time_ordered_strengths_by_kite variables_xl n_k d periods_tracked
             kite parent of
        Inl e \<Rightarrow> Inl e
      | Inr regular \<Rightarrow>
          (case cas_index regular (- 1) of
             Inl e \<Rightarrow> Inl e
           | Inr trailing \<Rightarrow>
               (let infinite_leading = 0;
                    infinite_trailing = trailing
                in Inr ([infinite_leading] @ regular @ [infinite_trailing]))))"

text \<open>A row \<open>cas.horzcat(start_point, end_point, strength)\<close> of the filament table.\<close>

type_synonym filament_row = "vec3 \<times> vec3 \<times> real"

definition get_vortex_ring_filaments ::
  "real list \<Rightarrow> vec3 list \<Rightarrow> vec3 list \<Rightarrow> int \<Rightarrow> error + filament_row list" where
  "get_vortex_ring_filaments padded_strengths padded_points_ext padded_points_int rdx =
     (case cas_index padded_points_int (rdx + 1) of Inl e \<Rightarrow> Inl e | Inr int_trailing \<Rightarrow>
     (case cas_index padded_points_int rdx of Inl e \<Rightarrow> Inl e | Inr int_leading \<Rightarrow>
     (case cas_index padded_points_ext rdx of Inl e \<Rightarrow> Inl e | Inr ext_leading \<Rightarrow>
     (case cas_index padded_points_ext (rdx + 1) of Inl e \<Rightarrow> Inl e | Inr ext_trailing \<Rightarrow>
     (case cas_index padded_strengths rdx of Inl e \<Rightarrow> Inl e | Inr strength_leading \<Rightarrow>
     (case cas_index padded_strengths (rdx - 1) of Inl e \<Rightarrow> Inl e | Inr strength_trailing \<Rightarrow>
        Inr ([] @ [(int_trailing, int_leading, strength_leading)]
                @ [(int_leading, ext_leading, strength_leading - strength_trailing)]
                @ [(ext_leading, ext_trailing, strength_leading)])))))))"

definition get_number_of_rings_per_kite :: "nat \<Rightarrow> nat \<Rightarrow> nat \<Rightarrow> nat" where
  "get_number_of_rings_per_kite n_k d periods_tracked = (periods_tracked * n_k * d) + 2"

text \<open>The dictionary \<open>args\<close>; the fields are its keys.\<close>

record args =
  args_variables_xd :: "string \<rightharpoonup> real list"
  args_variables_xl :: "string \<rightharpoonup> real list"
  args_u_vec_ref :: vec3
  args_infinite_time :: real
  args_periods_tracked :: nat
  args_n_k :: nat
  args_d :: nat
  args_kite :: nat
  args_parent :: nat

text \<open>The loop \<open>for rdx in range(1, n_rings)\<close> of \<open>get_list_of_filaments_by_kite\<close>.\<close>

fun rings_loop ::
  "real list \<Rightarrow> vec3 list \<Rightarrow> vec3 list \<Rightarrow> int list \<Rightarrow> filament_row list
     \<Rightarrow> error + filament_row list" where
  "rings_loop padded_strengths padded_points_ext padded_points_int [] filaments = Inr filaments"
| "rings_loop padded_strengths padded_points_ext padded_points_int (rdx # rdxs) filaments =
     (case get_vortex_ring_filaments padded_strengths padded_points_ext padded_points_int rdx of
        Inl e \<Rightarrow> Inl e
      | Inr ring_filaments \<Rightarrow>
          rings_loop padded_strengths padded_points_ext padded_points_int rdxs
            (filaments @ ring_filaments))"

definition get_list_of_filaments_by_kite :: "args \<Rightarrow> error + filament_row list" where
  "get_list_of_filaments_by_kite a =
     (let variables_xd = args_variables_xd a;
          variables_xl = args_variables_xl a;
          u_vec_ref = args_u_vec_ref a;
          infinite_time = args_infinite_time a;
          periods_tracked = args_periods_tracked a;
          n_k = args_n_k a;
          d = args_d a;
          kite = args_kite a;
          parent = args_parent a
      in case get_padded_strengths_by_kite variables_xl n_k d periods_tracked kite parent of
           Inl e \<Rightarrow> Inl e
         | Inr padded_strengths \<Rightarrow>
     (case get_padded_points_by_kite_and_tip variables_xd n_k d periods_tracked kite parent
             ''int'' u_vec_ref infinite_time of
           Inl e \<Rightarrow> Inl e
         | Inr padded_points_int \<Rightarrow>
     (case get_padded_points_by_kite_and_tip variables_xd n_k d periods_tracked kite parent
             ''ext'' u_vec_ref infinite_time of
           Inl e \<Rightarrow> Inl e
         | Inr padded_points_ext \<Rightarrow>
             (let n_rings = length padded_strengths
              in rings_loop padded_strengths padded_points_ext padded_points_int
                   (map int [1..<n_rings]) []))))"

record architecture =
  kite_nodes :: "nat list"
  parent_map :: "nat \<rightharpoonup> nat"

text \<open>
  \<open>get_list_of_all_filaments\<close>: the loop over the kites, with \<open>infinite_time = 1000.\<close>
  set in the function body. The result \<open>filaments.T\<close> has one column per filament; the
  model lists these columns.
\<close>

fun kites_loop ::
  "(string \<rightharpoonup> real list) \<Rightarrow> (string \<rightharpoonup> real list) \<Rightarrow> (nat \<rightharpoonup> nat) \<Rightarrow> vec3 \<Rightarrow> real
     \<Rightarrow> nat \<Rightarrow> nat \<Rightarrow> nat \<Rightarrow> nat list \<Rightarrow> filament_row list \<Rightarrow> error + filament_row list" where
  "kites_loop variables_xd variables_xl pmap u_vec_ref infinite_time periods_tracked n_k d
       [] filaments = Inr filaments"
| "kites_loop variables_xd variables_xl pmap u_vec_ref infinite_time periods_tracked n_k d
       (kite # kites) filaments =
     (case pmap kite of
        None \<Rightarrow> Inl (KeyError (str (int kite)))
      | Some parent \<Rightarrow>
          (case get_list_of_filaments_by_kite
                  \<lparr>args_variables_xd = variables_xd, args_variables_xl = variables_xl,
                   args_u_vec_ref = u_vec_ref, args_infinite_time = infinite_time,
                   args_periods_tracked = periods_tracked, args_n_k = n_k, args_d = d,
                   args_kite = kite, args_parent = parent\<rparr> of
             Inl e \<Rightarrow> Inl e
           | Inr new_filaments \<Rightarrow>
               kites_loop variables_xd variables_xl pmap u_vec_ref infinite_time
                 periods_tracked n_k d kites (filaments @ new_filaments)))"

definition get_list_of_all_filaments ::
  "(string \<rightharpoonup> real list) \<Rightarrow> (string \<rightharpoonup> real list) \<Rightarrow> architecture \<Rightarrow> vec3
     \<Rightarrow> nat \<Rightarrow> nat \<Rightarrow> nat \<Rightarrow> error + filament_row list" where
  "get_list_of_all_filaments variables_xd variables_xl arch u_vec_ref periods_tracked n_k d =
     (let infinite_time = 1000
      in kites_loop variables_xd variables_xl (parent_map arch) u_vec_ref infinite_time
           periods_tracked n_k d (kite_nodes arch) [])"

text \<open>
  \<open>get_vector_var\<close>. \<open>awelogger.logger\<close> is a logger of Python's \<open>logging\<close>:
  \<open>logger.error\<close> records a message and returns, so the model threads the list of
  logged messages and goes on with the next statement, as Python does. The locals
  \<open>sym\<close> and \<open>comp_all\<close> may be unbound when they are read (an \<open>UnboundLocalError\<close>),
  and \<open>comp_all\<close> keeps its value from one turn of the loop to the next. The bare
  \<open>except\<close> catches every failure of \<open>variables[loc][name]\<close>.
\<close>

record vortex_options =
  opt_n_k :: nat
  opt_d :: nat

fun get_vector_var_loop ::
  "nat \<Rightarrow> nat \<Rightarrow> (string \<rightharpoonup> (string \<rightharpoonup> real list)) \<Rightarrow> string option \<Rightarrow> string \<Rightarrow> int
     \<Rightarrow> nat \<Rightarrow> nat \<Rightarrow> bool \<Rightarrow> int \<Rightarrow> int \<Rightarrow> string list \<Rightarrow> real list option \<Rightarrow> real list
     \<Rightarrow> string list \<Rightarrow> string list \<times> (error + real list)" where
  "get_vector_var_loop n_k d variables symb tip period kite parent start ndx ddx
       [] comp_all vect logged = (logged, Inr vect)"
| "get_vector_var_loop n_k d variables symb tip period kite parent start ndx ddx
       (dm # dims) comp_all vect logged =
     (case symb of
        None \<Rightarrow> (logged, Inl (UnboundLocalError ''sym''))
      | Some s \<Rightarrow>
          (let name = wake_var_name s dm tip period kite parent;
               found = (case variables ''xd'' of None \<Rightarrow> None | Some xd \<Rightarrow> xd name);
               comp_all' = (case found of None \<Rightarrow> comp_all | Some v \<Rightarrow> Some v);
               logged' = (case found of
                            None \<Rightarrow> logged @ [''No such variable known.'']
                          | Some v \<Rightarrow> logged)
           in case comp_all' of
                None \<Rightarrow> (logged', Inl (UnboundLocalError ''comp_all''))
              | Some c \<Rightarrow>
                  (case get_wake_var_at_ndx_ddx n_k d c start ndx ddx of
                     Inl e \<Rightarrow> (logged', Inl e)
                   | Inr component \<Rightarrow>
                       get_vector_var_loop n_k d variables symb tip period kite parent
                         start ndx ddx dims comp_all' (vect @ [component]) logged')))"

definition get_vector_var ::
  "vortex_options \<Rightarrow> (string \<rightharpoonup> (string \<rightharpoonup> real list)) \<Rightarrow> string \<Rightarrow> string \<Rightarrow> int \<Rightarrow> nat
     \<Rightarrow> architecture \<Rightarrow> bool \<Rightarrow> int \<Rightarrow> int \<Rightarrow> string list \<times> (error + real list)" where
  "get_vector_var options variables pos_vel tip period kite arch start ndx ddx =
     (let n_k = opt_n_k options;
          d = opt_d options
      in case parent_map arch kite of
           None \<Rightarrow> ([], Inl (KeyError (str (int kite))))
         | Some parent \<Rightarrow>
             (let dims = [''x'', ''y'', ''z''];
                  symb = (if pos_vel = ''pos'' then Some ''w''
                          else if pos_vel = ''vel'' then Some ''dw''
                          else None);
                  logged = (if pos_vel = ''pos'' \<or> pos_vel = ''vel'' then []
                            else [''Unknown vector type. Please choose either pos (position) or vel (velocity).''])
              in get_vector_var_loop n_k d variables symb tip period kite parent
                   start ndx ddx dims None [] logged))"

text \<open>
  The input streams a configuration calls for, as the code reads them: for every tracked
  period, a position stream of \<open>n_k \<cdot> d + 1\<close> samples (one start sample and the regular
  ones) per tip and dimension, and a strength stream of \<open>n_k \<cdot> d\<close> samples.
\<close>

definition streams_present ::
  "(string \<rightharpoonup> real list) \<Rightarrow> (string \<rightharpoonup> real list) \<Rightarrow> nat \<Rightarrow> nat \<Rightarrow> nat \<Rightarrow> nat \<Rightarrow> nat \<Rightarrow> bool" where
  "streams_present variables_xd variables_xl n_k d periods_tracked kite parent \<longleftrightarrow>
     (\<forall>period < periods_tracked.
        (\<forall>tip \<in> {''int'', ''ext''}. \<forall>dm \<in> {''x'', ''y'', ''z''}.
           \<exists>v. variables_xd (wake_var_name ''w'' dm tip (int period) kite parent) = Some v
               \<and> length v = n_k * d + 1)
        \<and> (\<exists>g. variables_xl (gamma_name (int period) kite parent) = Some g
                \<and> length g = n_k * d))"

text \<open>The columns of a filament row.\<close>

fun start_point_of :: "filament_row \<Rightarrow> vec3" where
  "start_point_of (start_point, end_point, strength) = start_point"

fun end_point_of :: "filament_row \<Rightarrow> vec3" where
  "end_point_of (start_point, end_point, strength) = end_point"

fun strength_of :: "filament_row \<Rightarrow> real" where
  "strength_of (start_point, end_point, strength) = strength"

text \<open>
  The sum of the strengths of a ring's rows. The rows run head to tail around the ring
  (interior trailing, interior leading, exterior leading, exterior trailing), so each
  counts with the same sign.
\<close>

definition ring_strength_sum :: "filament_row list \<Rightarrow> real" where
  "ring_strength_sum ring = sum_list (map strength_of ring)"

section \<open>A small configuration\<close>

text \<open>
  One kite (node 1, parent 0), one tracked period, \<open>n_k = 2\<close>, \<open>d = 1\<close>: position
  streams of three samples and a strength stream of two. The concrete results below
  are evaluated on it.
\<close>

definition example_xd :: "string \<rightharpoonup> real list" where
  "example_xd =
     [''wx_int_0_10'' \<mapsto> [0, 1, 2], ''wy_int_0_10'' \<mapsto> [0, 0, 0], ''wz_int_0_10'' \<mapsto> [0, 0, 0],
      ''wx_ext_0_10'' \<mapsto> [0, 1, 2], ''wy_ext_0_10'' \<mapsto> [1, 1, 1], ''wz_ext_0_10'' \<mapsto> [0, 0, 0]]"

definition example_xl :: "string \<rightharpoonup> real list" where
  "example_xl = [''wg_0_10'' \<mapsto> [3, 5]]"

definition example_architecture :: architecture where
  "example_architecture = \<lparr>kite_nodes = [1], parent_map = [1 \<mapsto> 0]\<rparr>"

text \<open>The padded tables of this configuration, for \<open>u_vec_ref = (1, 0, 0)\<close> and distance 1000.\<close>

definition example_padded_strengths :: "real list" where
  "example_padded_strengths = [0, 5, 3, 3]"

definition example_padded_points_int :: "vec3 list" where
  "example_padded_points_int = [(- 998, 0, 0), (2, 0, 0), (1, 0, 0), (0, 0, 0), (1000, 0, 0)]"

definition example_padded_points_ext :: "vec3 list" where
  "example_padded_points_ext = [(- 998, 1, 0), (2, 1, 0), (1, 1, 0), (0, 1, 0), (1000, 1, 0)]"

definition example_args :: "real \<Rightarrow> args" where
  "example_args infinite_time =
     \<lparr>args_variables_xd = example_xd, args_variables_xl = example_xl,
      args_u_vec_ref = (1, 0, 0), args_infinite_time = infinite_time,
      args_periods_tracked = 1, args_n_k = 2, args_d = 1,
      args_kite = 1, args_parent = 0\<rparr>"

text \<open>The same configuration with a strength stream as long as a position stream.\<close>

definition example_xl_long :: "string \<rightharpoonup> real list" where
  "example_xl_long = [''wg_0_10'' \<mapsto> [3, 5, 7]]"

section \<open>The kernel in double arithmetic\<close>

text \<open>
  Evaluated on numbers, the kernel runs in IEEE 754 double precision, where every
  operation rounds. The definitions of the kernel above compute over the reals; the
  ones here round as the hardware does, so that results which depend on rounding can be
  stated on the code as it runs.

  A finite double is \<open>Fin m e\<close>, the number \<open>m \<cdot> 2\<^sup>e\<close>, kept with \<open>m\<close> odd (zero is
  \<open>Fin 0 0\<close>); \<open>NonFin\<close> stands for \<open>inf\<close>, \<open>-inf\<close> and \<open>nan\<close>. The model does not keep the sign
  of a zero, and an operation on \<open>NonFin\<close> gives \<open>NonFin\<close>: it agrees with the hardware on
  every computation whose intermediate results are all finite, and says \<open>NonFin\<close> from the
  first one that is not.
\<close>

datatype double = Fin int int | NonFin

text \<open>The number a finite double stands for.\<close>

definition fl_value :: "int \<Rightarrow> int \<Rightarrow> real" where
  "fl_value m e = (if 0 \<le> e then of_int m * 2 ^ nat e else of_int m / 2 ^ nat (- e))"

text \<open>The number of binary digits of a positive integer.\<close>

fun bit_length :: "int \<Rightarrow> nat" where
  "bit_length n = (if n \<le> 0 then 0 else Suc (bit_length (n div 2)))"

declare bit_length.simps [simp del]

text \<open>The same number with an odd significand.\<close>

function fl_norm :: "int \<Rightarrow> int \<Rightarrow> double" where
  "fl_norm m e =
     (if m = 0 then Fin 0 0 else if even m then fl_norm (m div 2) (e + 1) else Fin m e)"
  by pat_completeness auto
termination
  by (relation "measure (\<lambda>(m, e). nat \<bar>m\<bar>)") auto

declare fl_norm.simps [simp del]

text \<open>
  Rounding of the exact value \<open>m \<cdot> 2\<^sup>e\<close> to the nearest double, ties to the even
  significand: 53 significant bits, the spacing of the subnormal range, two to the
  power \<open>-1074\<close>, as the finest, and overflow from two to the power 1024 on.
\<close>

definition fl_round :: "int \<Rightarrow> int \<Rightarrow> double" where
  "fl_round m e =
     (let a = \<bar>m\<bar>;
          shift = max (int (bit_length a) - 53) (- 1074 - e)
      in if m = 0 then Fin 0 0
         else if shift \<le> 0
         then (if 1024 < int (bit_length a) + e then NonFin else fl_norm m e)
         else
           (let q = a div 2 ^ nat shift;
                r = a mod 2 ^ nat shift;
                half = 2 ^ nat (shift - 1);
                q' = (if half < r \<or> (r = half \<and> odd q) then q + 1 else q)
            in if 1024 < int (bit_length q') + (e + shift) then NonFin
               else fl_norm (sgn m * q') (e + shift)))"

fun fl_add :: "double \<Rightarrow> double \<Rightarrow> double" where
  "fl_add (Fin m1 e1) (Fin m2 e2) =
     (let e = min e1 e2 in fl_round (m1 * 2 ^ nat (e1 - e) + m2 * 2 ^ nat (e2 - e)) e)"
| "fl_add _ _ = NonFin"

fun fl_neg :: "double \<Rightarrow> double" where
  "fl_neg (Fin m e) = Fin (- m) e"
| "fl_neg NonFin = NonFin"

definition fl_sub :: "double \<Rightarrow> double \<Rightarrow> double" where
  "fl_sub x y = fl_add x (fl_neg y)"

fun fl_mul :: "double \<Rightarrow> double \<Rightarrow> double" where
  "fl_mul (Fin m1 e1) (Fin m2 e2) = fl_round (m1 * m2) (e1 + e2)"
| "fl_mul _ _ = NonFin"

text \<open>
  The quotient and the square root are computed to more than 55 bits, with one more bit
  that says whether anything was cut off, and then rounded once.
\<close>

fun fl_div :: "double \<Rightarrow> double \<Rightarrow> double" where
  "fl_div (Fin m1 e1) (Fin m2 e2) =
     (if m2 = 0 then NonFin
      else
        let a1 = \<bar>m1\<bar>; a2 = \<bar>m2\<bar>;
            k = nat (55 + int (bit_length a2) - int (bit_length a1));
            q = (a1 * 2 ^ k) div a2;
            r = (a1 * 2 ^ k) mod a2;
            sticky = (if r = 0 then 0 else 1)
        in fl_round (sgn m1 * sgn m2 * (2 * q + sticky)) (e1 - e2 - int k - 1))"
| "fl_div _ _ = NonFin"

fun isqrt_loop :: "int \<Rightarrow> nat \<Rightarrow> int \<Rightarrow> int" where
  "isqrt_loop n 0 r = r"
| "isqrt_loop n (Suc i) r =
     (let r' = r + 2 ^ i in isqrt_loop n i (if r' * r' \<le> n then r' else r))"

fun fl_sqrt :: "double \<Rightarrow> double" where
  "fl_sqrt (Fin m e) =
     (if m < 0 then NonFin
      else if m = 0 then Fin 0 0
      else
        let k = nat ((111 - int (bit_length m)) div 2);
            sh = 2 * int k + (e - 2 * int k) mod 2;
            M = m * 2 ^ nat sh;
            r = isqrt_loop M (bit_length M div 2 + 1) 0;
            sticky = (if r * r = M then 0 else 1)
        in fl_round (2 * r + sticky) ((e - sh) div 2 - 1))"
| "fl_sqrt NonFin = NonFin"

text \<open>
  Vectors of doubles. The dot product \<open>cas.mtimes(a.T, b)\<close> adds its three products from
  left to right.
\<close>

type_synonym dvec3 = "double \<times> double \<times> double"

fun dsub :: "dvec3 \<Rightarrow> dvec3 \<Rightarrow> dvec3" where
  "dsub (a1, a2, a3) (b1, b2, b3) = (fl_sub a1 b1, fl_sub a2 b2, fl_sub a3 b3)"

fun dsmul :: "dvec3 \<Rightarrow> double \<Rightarrow> dvec3" where
  "dsmul (a1, a2, a3) s = (fl_mul a1 s, fl_mul a2 s, fl_mul a3 s)"

fun ddot :: "dvec3 \<Rightarrow> dvec3 \<Rightarrow> double" where
  "ddot (a1, a2, a3) (b1, b2, b3) =
     fl_add (fl_add (fl_mul a1 b1) (fl_mul a2 b2)) (fl_mul a3 b3)"

text \<open>
  Modelled from the spec: \<open>vect_op.cross\<close> and \<open>vect_op.smooth_norm\<close>, which are not among
  the sources, as for the reals above, each operation rounded; the root is the
  correctly rounded square root.
\<close>

fun dcross :: "dvec3 \<Rightarrow> dvec3 \<Rightarrow> dvec3" where
  "dcross (a1, a2, a3) (b1, b2, b3) =
     (fl_sub (fl_mul a2 b3) (fl_mul a3 b2),
      fl_sub (fl_mul a3 b1) (fl_mul a1 b3),
      fl_sub (fl_mul a1 b2) (fl_mul a2 b1))"

definition smooth_norm_fp :: "double \<Rightarrow> dvec3 \<Rightarrow> double" where
  "smooth_norm_fp eps0 a = fl_sqrt (fl_add (ddot a a) eps0)"

text \<open>\<open>np.pi\<close>, the double next to \<open>\<pi>\<close>, and the floors \<open>1e-8\<close> and \<open>1e-16\<close> as doubles.\<close>

definition np_pi :: double where
  "np_pi = Fin 884279719003555 (- 48)"

definition fp_1em8 :: double where
  "fp_1em8 = Fin 3022314549036573 (- 78)"

definition fp_1em16 :: double where
  "fp_1em16 = Fin 2028240960365167 (- 104)"


text \<open>
  \<open>filament\<close> once more, every operation rounded, in the order the source writes them.
  The power \<open>** 2.\<close> is the product of the number with itself, and \<open>4.\<close> is \<open>Fin 1 2\<close>. A
  division by zero raises nothing: it gives \<open>NonFin\<close>.
\<close>

definition dslice3 :: "double list \<Rightarrow> nat \<Rightarrow> dvec3" where
  "dslice3 xs i = (xs ! i, xs ! (i + 1), xs ! (i + 2))"

fun seg_data_fp :: "dvec3 \<Rightarrow> dvec3 \<Rightarrow> dvec3 \<Rightarrow> double \<Rightarrow> double \<Rightarrow> double list" where
  "seg_data_fp (x1, x2, x3) (p1, p2, p3) (q1, q2, q3) Gamma epsilon =
     [x1, x2, x3, p1, p2, p3, q1, q2, q3, Gamma, epsilon]"

definition filament_den_fp :: "double \<Rightarrow> double list \<Rightarrow> double" where
  "filament_den_fp eps0 seg_data =
     (let point_obs = dslice3 seg_data 0;
          point_1 = dslice3 seg_data 3;
          point_2 = dslice3 seg_data 6;
          epsilon = seg_data ! 10;
          vec_1 = dsub point_obs point_1;
          vec_2 = dsub point_obs point_2;
          vec_0 = dsub point_2 point_1;
          r1 = smooth_norm_fp eps0 vec_1;
          r2 = smooth_norm_fp eps0 vec_2;
          r0 = smooth_norm_fp eps0 vec_0;
          den_ori = fl_mul (fl_mul r1 r2) (fl_add (fl_mul r1 r2) (ddot vec_1 vec_2));
          den_reg = fl_mul (fl_mul epsilon r0) (fl_mul epsilon r0)
      in fl_add den_ori den_reg)"

definition filament_fp :: "double \<Rightarrow> double list \<Rightarrow> error + dvec3" where
  "filament_fp eps0 seg_data =
     (if length seg_data < 11 then Inl IndexOutOfBounds
      else
        let point_obs = dslice3 seg_data 0;
            point_1 = dslice3 seg_data 3;
            point_2 = dslice3 seg_data 6;
            Gamma = seg_data ! 9;
            vec_1 = dsub point_obs point_1;
            vec_2 = dsub point_obs point_2;
            r1 = smooth_norm_fp eps0 vec_1;
            r2 = smooth_norm_fp eps0 vec_2;
            factor = fl_div Gamma (fl_mul (Fin 1 2) np_pi);
            num = fl_add r1 r2;
            den = filament_den_fp eps0 seg_data;
            dir = dcross vec_1 vec_2;
            scale = fl_div (fl_mul factor num) den
        in Inr (dsmul dir scale))"

section \<open>Results on the kernel\<close>

subsection \<open>The kernel on a segment-data column\<close>

lemma filament_seg_data_ext:
  "filament eps0 (seg_data_of X P1 P2 Gamma epsilon @ rest) =
     (if filament_den eps0 (seg_data_of X P1 P2 Gamma epsilon @ rest) = 0 then Inl NonFinite
      else Inr (smul (cross (vsub X P1) (vsub X P2))
            (Gamma / (4 * pi) * (smooth_norm eps0 (vsub X P1) + smooth_norm eps0 (vsub X P2))
               / filament_den eps0 (seg_data_of X P1 P2 Gamma epsilon @ rest))))"
  by (cases X; cases P1; cases P2) (simp add: filament_def slice3_def Let_def)

lemma filament_den_seg_data_ext:
  "filament_den eps0 (seg_data_of X P1 P2 Gamma epsilon @ rest) =
     (smooth_norm eps0 (vsub X P1) * smooth_norm eps0 (vsub X P2))
       * (smooth_norm eps0 (vsub X P1) * smooth_norm eps0 (vsub X P2)
            + dot (vsub X P1) (vsub X P2))
     + (epsilon * smooth_norm eps0 (vsub P2 P1)) ^ 2"
  by (cases X; cases P1; cases P2) (simp add: filament_den_def slice3_def Let_def)

lemmas filament_seg_data = filament_seg_data_ext [where rest = "[]", simplified]

lemmas filament_den_seg_data = filament_den_seg_data_ext [where rest = "[]", simplified]

subsection \<open>Vector algebra\<close>

lemma dot_nonneg: "0 \<le> dot a a"
  by (cases a) simp

lemma lagrange: "dot (cross a b) (cross a b) = dot a a * dot b b - (dot a b)\<^sup>2"
  by (cases a; cases b) (simp add: power2_eq_square algebra_simps)

lemma cross_shift_right: "cross a (vsub a b) = smul (cross a b) (- 1)"
  by (cases a; cases b) (simp add: algebra_simps)

lemma cross_shift_left: "cross (vsub a b) b = cross a b"
  by (cases a; cases b) (simp add: algebra_simps)

lemma dot_smul_neg: "dot (smul a (- 1)) (smul a (- 1)) = dot a a"
  by (cases a) simp

lemma vsub_vsub: "vsub (vsub X P1) (vsub X P2) = vsub P2 P1"
  by (cases X; cases P1; cases P2) simp

lemma law_of_cosines: "dot (vsub a b) (vsub a b) = dot a a + dot b b - 2 * dot a b"
  by (cases a; cases b) (simp add: algebra_simps)

lemma cross_sq_le_left: "dot (cross a b) (cross a b) \<le> dot a a * dot (vsub a b) (vsub a b)"
proof -
  have "dot (cross a b) (cross a b) = dot (cross a (vsub a b)) (cross a (vsub a b))"
    by (simp add: cross_shift_right dot_smul_neg)
  also have "\<dots> = dot a a * dot (vsub a b) (vsub a b) - (dot a (vsub a b))\<^sup>2"
    by (rule lagrange)
  also have "\<dots> \<le> dot a a * dot (vsub a b) (vsub a b)" by simp
  finally show ?thesis .
qed

lemma cross_sq_le_right: "dot (cross a b) (cross a b) \<le> dot b b * dot (vsub a b) (vsub a b)"
proof -
  have "dot (cross a b) (cross a b) = dot (cross (vsub a b) b) (cross (vsub a b) b)"
    by (simp add: cross_shift_left)
  also have "\<dots> = dot (vsub a b) (vsub a b) * dot b b - (dot (vsub a b) b)\<^sup>2"
    by (rule lagrange)
  also have "\<dots> \<le> dot b b * dot (vsub a b) (vsub a b)" by (simp add: mult.commute)
  finally show ?thesis .
qed

lemma cauchy_schwarz: "(dot a b)\<^sup>2 \<le> dot a a * dot b b"
proof -
  have "0 \<le> dot (cross a b) (cross a b)" by (rule dot_nonneg)
  then show ?thesis by (simp add: lagrange)
qed


lemma dot_pos: "a \<noteq> (0, 0, 0) \<Longrightarrow> 0 < dot a a"
proof (cases a)
  case (fields a1 a2 a3)
  assume "a \<noteq> (0, 0, 0)"
  with fields have "a1 \<noteq> 0 \<or> a2 \<noteq> 0 \<or> a3 \<noteq> 0" by simp
  then have "0 < a1 * a1 + a2 * a2 + a3 * a3"
    by (metis add_pos_nonneg add_nonneg_pos add_nonneg_nonneg zero_le_square
          not_real_square_gt_zero)
  with fields show ?thesis by simp
qed

lemma vsub_eq_zero: "vsub a b = (0, 0, 0) \<longleftrightarrow> a = b"
  by (cases a; cases b) auto

lemma smooth_norm_nonneg: "0 \<le> eps0 \<Longrightarrow> 0 \<le> smooth_norm eps0 a"
  by (simp add: smooth_norm_def dot_nonneg)

lemma smooth_norm_sq: "0 \<le> eps0 \<Longrightarrow> (smooth_norm eps0 a)\<^sup>2 = dot a a + eps0"
  by (simp add: smooth_norm_def dot_nonneg)

lemma smooth_norm_pos: "0 \<le> eps0 \<Longrightarrow> a \<noteq> (0, 0, 0) \<Longrightarrow> 0 < smooth_norm eps0 a"
  using dot_pos [of a] by (simp add: smooth_norm_def add_pos_nonneg)

lemma norm3_smul: "norm3 (smul a s) = \<bar>s\<bar> * norm3 a"
proof (cases a)
  case (fields a1 a2 a3)
  have "dot (smul a s) (smul a s) = s\<^sup>2 * dot a a"
    using fields by (simp add: power2_eq_square algebra_simps)
  then show ?thesis
    by (simp add: norm3_def real_sqrt_mult)
qed

lemma norm3_cross_le:
  assumes "0 \<le> eps0"
  shows "norm3 (cross a b) \<le> smooth_norm eps0 a * smooth_norm eps0 (vsub a b)"
    and "norm3 (cross a b) \<le> smooth_norm eps0 b * smooth_norm eps0 (vsub a b)"
proof -
  have le: "dot a a * dot (vsub a b) (vsub a b) \<le> (dot a a + eps0) * (dot (vsub a b) (vsub a b) + eps0)"
    "dot b b * dot (vsub a b) (vsub a b) \<le> (dot b b + eps0) * (dot (vsub a b) (vsub a b) + eps0)"
    using assms by (simp_all add: mult_mono dot_nonneg)
  show "norm3 (cross a b) \<le> smooth_norm eps0 a * smooth_norm eps0 (vsub a b)"
    unfolding norm3_def smooth_norm_def real_sqrt_mult [symmetric]
    using cross_sq_le_left [of a b] le(1) by (intro real_sqrt_le_mono) linarith
  show "norm3 (cross a b) \<le> smooth_norm eps0 b * smooth_norm eps0 (vsub a b)"
    unfolding norm3_def smooth_norm_def real_sqrt_mult [symmetric]
    using cross_sq_le_right [of a b] le(2) by (intro real_sqrt_le_mono) linarith
qed

lemma dot_ge_neg_smooth:
  assumes "0 \<le> eps0"
  shows "0 \<le> smooth_norm eps0 a * smooth_norm eps0 b + dot a b"
proof -
  have "(dot a b)\<^sup>2 \<le> dot a a * dot b b" by (rule cauchy_schwarz)
  also have "\<dots> \<le> (dot a a + eps0) * (dot b b + eps0)"
    using assms by (simp add: mult_mono dot_nonneg)
  also have "\<dots> = (smooth_norm eps0 a * smooth_norm eps0 b)\<^sup>2"
    using assms by (simp add: power_mult_distrib smooth_norm_sq)
  finally have "\<bar>dot a b\<bar> \<le> \<bar>smooth_norm eps0 a * smooth_norm eps0 b\<bar>"
    by (simp add: abs_le_square_iff)
  moreover have "0 \<le> smooth_norm eps0 a * smooth_norm eps0 b"
    using assms by (simp add: smooth_norm_nonneg)
  ultimately show ?thesis by linarith
qed

lemma smooth_product_le:
  assumes "0 \<le> eps0"
  shows "2 * (smooth_norm eps0 a * smooth_norm eps0 b)
           \<le> (smooth_norm eps0 a * smooth_norm eps0 b + dot a b) + (smooth_norm eps0 (vsub a b))\<^sup>2"
proof -
  let ?r1 = "smooth_norm eps0 a" and ?r2 = "smooth_norm eps0 b"
  have "0 \<le> (?r1 - ?r2)\<^sup>2" by simp
  then have "2 * (?r1 * ?r2) \<le> ?r1\<^sup>2 + ?r2\<^sup>2"
    by (simp add: power2_diff)
  then have "2 * (?r1 * ?r2) \<le> dot a a + dot b b + 2 * eps0"
    using assms by (simp add: smooth_norm_sq)
  moreover have "(smooth_norm eps0 (vsub a b))\<^sup>2 = dot a a + dot b b - 2 * dot a b + eps0"
    using assms by (simp add: smooth_norm_sq law_of_cosines)
  moreover have "0 \<le> dot a a + dot b b - 2 * dot a b"
    using dot_nonneg [of "vsub a b"] by (simp add: law_of_cosines)
  ultimately show ?thesis using assms by linarith
qed

subsection \<open>The denominator is positive\<close>

text \<open>With a positive floor in the smoothed norm, at every input whatsoever.\<close>

lemma dot_gt_neg_smooth:
  assumes "0 < eps0"
  shows "0 < smooth_norm eps0 a * smooth_norm eps0 b + dot a b"
proof -
  have "(dot a b)\<^sup>2 \<le> dot a a * dot b b" by (rule cauchy_schwarz)
  also have "\<dots> < (dot a a + eps0) * (dot b b + eps0)"
  proof -
    have "(dot a a + eps0) * (dot b b + eps0)
            = dot a a * dot b b + eps0 * (dot a a + dot b b) + eps0 * eps0"
      by (simp add: algebra_simps)
    moreover have "0 \<le> eps0 * (dot a a + dot b b)"
      using assms dot_nonneg [of a] dot_nonneg [of b] by simp
    moreover have "0 < eps0 * eps0" using assms by simp
    ultimately show ?thesis by linarith
  qed
  also have "\<dots> = (smooth_norm eps0 a * smooth_norm eps0 b)\<^sup>2"
    using assms by (simp add: power_mult_distrib smooth_norm_sq)
  finally have "\<bar>dot a b\<bar>\<^sup>2 < (smooth_norm eps0 a * smooth_norm eps0 b)\<^sup>2"
    by simp
  moreover have "0 \<le> smooth_norm eps0 a * smooth_norm eps0 b"
    using assms by (simp add: smooth_norm_nonneg)
  ultimately have "\<bar>dot a b\<bar> < smooth_norm eps0 a * smooth_norm eps0 b"
    by (rule power2_less_imp_less)
  then show ?thesis by linarith
qed

lemma smooth_norm_pos_floor: "0 < eps0 \<Longrightarrow> 0 < smooth_norm eps0 a"
  using dot_nonneg [of a] by (simp add: smooth_norm_def add_nonneg_pos)

lemma filament_den_pos_floor:
  assumes "0 < eps0"
  shows "0 < filament_den eps0 (seg_data_of X P1 P2 Gamma epsilon @ rest)"
proof -
  let ?r1 = "smooth_norm eps0 (vsub X P1)" and ?r2 = "smooth_norm eps0 (vsub X P2)"
  have "0 < ?r1 * ?r2" using assms by (simp add: smooth_norm_pos_floor)
  moreover have "0 < ?r1 * ?r2 + dot (vsub X P1) (vsub X P2)"
    using assms by (rule dot_gt_neg_smooth)
  ultimately have "0 < (?r1 * ?r2) * (?r1 * ?r2 + dot (vsub X P1) (vsub X P2))"
    by (rule mult_pos_pos)
  moreover have "0 \<le> (epsilon * smooth_norm eps0 (vsub P2 P1))\<^sup>2" by simp
  ultimately show ?thesis
    unfolding filament_den_seg_data_ext by (rule add_pos_nonneg)
qed

text \<open>With any floor, for a positive regularisation and distinct end points.\<close>

lemma filament_den_pos:
  assumes "0 \<le> eps0" and "0 < epsilon" and "P1 \<noteq> P2"
  shows "0 < filament_den eps0 (seg_data_of X P1 P2 Gamma epsilon)"
proof -
  let ?r1 = "smooth_norm eps0 (vsub X P1)" and ?r2 = "smooth_norm eps0 (vsub X P2)"
  have "0 < smooth_norm eps0 (vsub P2 P1)"
    using assms(1,3) by (intro smooth_norm_pos) (auto simp: vsub_eq_zero)
  then have "0 < (epsilon * smooth_norm eps0 (vsub P2 P1))\<^sup>2"
    using assms(2) by simp
  moreover have "0 \<le> (?r1 * ?r2) * (?r1 * ?r2 + dot (vsub X P1) (vsub X P2))"
    using assms(1) by (intro mult_nonneg_nonneg dot_ge_neg_smooth smooth_norm_nonneg)
  ultimately show ?thesis
    unfolding filament_den_seg_data by (rule add_nonneg_pos [rotated])
qed

subsection \<open>The kernel and the spec's formula\<close>

text \<open>
  C1. On every segment-data column, that is the eleven entries of an observation point
  \<open>X\<close>, end points \<open>P1\<close>, \<open>P2\<close>, a circulation and a regularisation, followed by any
  further rows (the surface normal of a directional query), \<open>filament\<close> returns the
  spec's formula \<open>(r1 \<times> r2) \<cdot> \<Gamma>/(4\<pi>) \<cdot> (|r1| + |r2|) / denominator\<close>. The floor of the
  smoothed norm is positive, as the spec describes it; the denominator is then never
  zero, whatever the input.
\<close>

theorem filament_matches_spec_formula:
  assumes "0 < eps0"
  shows "filament eps0 (seg_data_of X P1 P2 Gamma epsilon @ rest) =
           Inr (spec_induced_velocity eps0 X P1 P2 Gamma epsilon)"
proof -
  have "filament_den eps0 (seg_data_of X P1 P2 Gamma epsilon @ rest) \<noteq> 0"
    using filament_den_pos_floor [OF assms, of X P1 P2 Gamma epsilon rest] by simp
  then show ?thesis
    by (simp add: filament_seg_data_ext)
       (simp add: filament_den_seg_data_ext spec_induced_velocity_def Let_def)
qed

text \<open>
  The spec's self-test input: end points \<open>(0, 0, \<plusminus>1000)\<close>, \<open>\<Gamma> = 1\<close>, \<open>\<epsilon> = 1e-2\<close>, observed
  at \<open>(0, 1, 0)\<close>, with the floor \<open>1e-8\<close>.
\<close>

theorem filament_matches_spec_formula_witness:
  "filament (1 / 10 ^ 8) (seg_data_of (0, 1, 0) (0, 0, 1000) (0, 0, - 1000) 1 (1 / 100) @ []) =
     Inr (spec_induced_velocity (1 / 10 ^ 8) (0, 1, 0) (0, 0, 1000) (0, 0, - 1000) 1 (1 / 100))"
  using filament_matches_spec_formula [of "1 / 10 ^ 8" "(0, 1, 0)" "(0, 0, 1000)"
          "(0, 0, - 1000)" 1 "1 / 100" "[]"]
  by simp

subsection \<open>Boundedness of the regularised kernel in exact arithmetic\<close>

lemma kernel_bound_real:
  fixes r1 r2 r0 e C w u :: real
  assumes r1: "0 \<le> r1" and r2: "0 \<le> r2" and r0: "0 < r0" and e: "0 < e"
    and C1: "C \<le> r2 * r0" and C2: "C \<le> r1 * r0"
    and w: "0 \<le> w" and u: "u = r1 * r2" and uw: "2 * u \<le> w + r0\<^sup>2"
  shows "C * (r1 + r2) \<le> (2 / r0 + 2 * r0 / e\<^sup>2) * (u * w + (e * r0)\<^sup>2)"
proof -
  have u0: "0 \<le> u" using r1 r2 u by simp
  have "C * r1 \<le> (r2 * r0) * r1" using C1 r1 by (rule mult_right_mono)
  moreover have "C * r2 \<le> (r1 * r0) * r2" using C2 r2 by (rule mult_right_mono)
  ultimately have step: "C * (r1 + r2) \<le> 2 * u * r0"
    unfolding u by (simp add: algebra_simps)
  have den0: "0 \<le> u * w" using u0 w by simp
  have e2: "0 < e\<^sup>2" using e by simp
  have t1: "(2 / r0) * (u * w + (e * r0)\<^sup>2) = 2 * (u * w) / r0 + 2 * e\<^sup>2 * r0"
    using r0 by (simp add: field_simps power2_eq_square)
  have t2: "(2 * r0 / e\<^sup>2) * (u * w + (e * r0)\<^sup>2) = 2 * r0 * (u * w) / e\<^sup>2 + 2 * r0 ^ 3"
    using e by (simp add: field_simps power2_eq_square power3_eq_cube)
  have rhs: "(2 / r0 + 2 * r0 / e\<^sup>2) * (u * w + (e * r0)\<^sup>2)
      = 2 * (u * w) / r0 + 2 * e\<^sup>2 * r0 + 2 * r0 * (u * w) / e\<^sup>2 + 2 * r0 ^ 3"
    using t1 t2 by (simp add: distrib_right)
  have p1: "0 \<le> 2 * (u * w) / r0" using den0 r0 by simp
  have p2: "0 \<le> 2 * e\<^sup>2 * r0" using r0 by simp
  have p3: "0 \<le> 2 * r0 * (u * w) / e\<^sup>2" using den0 r0 e2 by simp
  have p4: "0 \<le> 2 * r0 ^ 3" using r0 by simp
  show ?thesis
  proof (cases "r0\<^sup>2 \<le> w")
    case True
    have "u * r0\<^sup>2 \<le> u * w" using True u0 by (rule mult_left_mono)
    then have "2 * (u * r0\<^sup>2) / r0 \<le> 2 * (u * w) / r0"
      using r0 by (simp add: divide_right_mono)
    moreover have "2 * (u * r0\<^sup>2) / r0 = 2 * u * r0"
      using r0 by (simp add: power2_eq_square)
    ultimately have "2 * u * r0 \<le> 2 * (u * w) / r0" by simp
    with step rhs p2 p3 p4 show ?thesis by linarith
  next
    case False
    then have "u \<le> r0\<^sup>2" using uw by simp
    then have "u * r0 \<le> r0\<^sup>2 * r0" using r0 by (simp add: mult_right_mono)
    then have "2 * u * r0 \<le> 2 * r0 ^ 3" by (simp add: power2_eq_square power3_eq_cube)
    with step rhs p1 p2 p3 show ?thesis by linarith
  qed
qed

text \<open>
  In exact arithmetic the regularisation does what it is meant to do: for
  \<open>epsilon > 0\<close> and distinct end points the denominator is strictly positive at every
  observation point, and the length of the induced velocity is bounded by a constant
  that does not depend on the observation point. The double arithmetic of the code
  loses this, as shown further below.
\<close>

lemma filament_regularised_exact:
  assumes eps0: "0 \<le> eps0" and eps: "0 < epsilon" and ne: "P1 \<noteq> P2"
  shows "0 < filament_den eps0 (seg_data_of X P1 P2 Gamma epsilon) \<and>
         (\<exists>v. filament eps0 (seg_data_of X P1 P2 Gamma epsilon) = Inr v \<and>
              norm3 v \<le> \<bar>Gamma\<bar> / (4 * pi)
                         * (2 / smooth_norm eps0 (vsub P2 P1)
                            + 2 * smooth_norm eps0 (vsub P2 P1) / epsilon\<^sup>2))"
proof -
  define v1 where "v1 = vsub X P1"
  define v2 where "v2 = vsub X P2"
  define r1 where "r1 = smooth_norm eps0 v1"
  define r2 where "r2 = smooth_norm eps0 v2"
  define r0 where "r0 = smooth_norm eps0 (vsub P2 P1)"
  define w where "w = r1 * r2 + dot v1 v2"
  define den where "den = filament_den eps0 (seg_data_of X P1 P2 Gamma epsilon)"
  define C where "C = norm3 (cross v1 v2)"
  define B where "B = 2 / r0 + 2 * r0 / epsilon\<^sup>2"
  have v0: "vsub v1 v2 = vsub P2 P1" by (simp add: v1_def v2_def vsub_vsub)
  have r1: "0 \<le> r1" and r2: "0 \<le> r2"
    using eps0 by (simp_all add: r1_def r2_def smooth_norm_nonneg)
  have r0: "0 < r0"
    unfolding r0_def using eps0 ne by (intro smooth_norm_pos) (auto simp: vsub_eq_zero)
  have w: "0 \<le> w" unfolding w_def r1_def r2_def using eps0 by (rule dot_ge_neg_smooth)
  have den_eq: "den = (r1 * r2) * w + (epsilon * r0)\<^sup>2"
    by (simp add: den_def filament_den_seg_data w_def r1_def r2_def r0_def v1_def v2_def)
  have den_pos: "0 < den"
    unfolding den_def using eps0 eps ne by (rule filament_den_pos)
  have C1: "C \<le> r2 * r0" and C2: "C \<le> r1 * r0"
    using norm3_cross_le [OF eps0, of v1 v2] by (simp_all add: C_def r1_def r2_def r0_def v0)
  have uw: "2 * (r1 * r2) \<le> w + r0\<^sup>2"
    using smooth_product_le [OF eps0, of v1 v2] by (simp add: w_def r1_def r2_def r0_def v0)
  have "C * (r1 + r2) \<le> B * ((r1 * r2) * w + (epsilon * r0)\<^sup>2)"
    unfolding B_def using r1 r2 r0 eps C1 C2 w refl uw by (rule kernel_bound_real)
  then have ratio: "C * (r1 + r2) / den \<le> B"
    using den_pos by (simp add: den_eq pos_divide_le_eq)
  have val: "filament eps0 (seg_data_of X P1 P2 Gamma epsilon)
               = Inr (smul (cross v1 v2) (Gamma / (4 * pi) * (r1 + r2) / den))"
    using den_pos by (simp add: filament_seg_data v1_def v2_def r1_def r2_def den_def)
  have "norm3 (smul (cross v1 v2) (Gamma / (4 * pi) * (r1 + r2) / den))
          = \<bar>Gamma / (4 * pi) * (r1 + r2) / den\<bar> * C"
    by (simp add: norm3_smul C_def)
  also have "\<dots> = \<bar>Gamma\<bar> / (4 * pi) * (C * (r1 + r2) / den)"
    using r1 r2 den_pos by (simp add: abs_mult)
  also have "\<dots> \<le> \<bar>Gamma\<bar> / (4 * pi) * B"
    using ratio by (intro mult_left_mono) simp_all
  finally have "norm3 (smul (cross v1 v2) (Gamma / (4 * pi) * (r1 + r2) / den))
                  \<le> \<bar>Gamma\<bar> / (4 * pi) * B" .
  with val den_pos show ?thesis
    unfolding den_def B_def r0_def by simp
qed

subsection \<open>Symmetry and the filament line\<close>

lemma smooth_norm_vsub_swap: "smooth_norm eps0 (vsub a b) = smooth_norm eps0 (vsub b a)"
  by (cases a; cases b) (simp add: smooth_norm_def algebra_simps)

lemma dot_commute: "dot a b = dot b a"
  by (cases a; cases b) simp

lemma cross_swap: "cross b a = smul (cross a b) (- 1)"
  by (cases a; cases b) (simp add: algebra_simps)

lemma smul_smul: "smul (smul a s) t = smul a (s * t)"
  by (cases a) simp

lemma filament_den_swap:
  "filament_den eps0 (seg_data_of X P2 P1 Gamma' epsilon) =
   filament_den eps0 (seg_data_of X P1 P2 Gamma epsilon)"
  by (simp add: filament_den_seg_data smooth_norm_vsub_swap [of eps0 P1 P2]
        dot_commute [of "vsub X P2"] mult.commute)

text \<open>
  C6. Swapping the end points and negating the circulation leaves the kernel's output
  unchanged, for every observation point, end points, circulation and regularisation.
\<close>

theorem filament_endpoint_sign_symmetry:
  "filament eps0 (seg_data_of X P2 P1 (- Gamma) epsilon) =
   filament eps0 (seg_data_of X P1 P2 Gamma epsilon)"
  by (simp add: filament_seg_data filament_den_swap [of eps0 X P2 P1 "- Gamma" epsilon Gamma]
        cross_swap [of "vsub X P2" "vsub X P1"] smul_smul add.commute)

lemma cross_on_line:
  "cross (vsub (vadd P1 (scale_vec t (vsub P2 P1))) P1)
         (vsub (vadd P1 (scale_vec t (vsub P2 P1))) P2) = (0, 0, 0)"
  by (cases P1; cases P2) (simp add: algebra_simps)

lemma smul_zero: "smul (0, 0, 0) s = (0, 0, 0)"
  by simp

text \<open>
  In exact arithmetic, an observation point on the straight line through \<open>P1\<close> and
  \<open>P2\<close> makes the cross product the zero vector and the velocity exactly zero.
\<close>

lemma filament_zero_on_line_exact:
  assumes "0 \<le> eps0" and "0 < epsilon" and "P1 \<noteq> P2"
    and "X = vadd P1 (scale_vec t (vsub P2 P1))"
  shows "cross (vsub X P1) (vsub X P2) = (0, 0, 0) \<and>
         filament eps0 (seg_data_of X P1 P2 Gamma epsilon) = Inr (0, 0, 0)"
proof -
  have "filament_den eps0 (seg_data_of X P1 P2 Gamma epsilon) \<noteq> 0"
    using filament_den_pos [OF assms(1-3), of X Gamma] by simp
  then show ?thesis
    using assms(4) by (simp add: filament_seg_data cross_on_line)
qed

section \<open>Results on the kernel in double arithmetic\<close>

text \<open>
  The operations on well-known cases: \<open>0.1 + 0.2\<close>, \<open>sqrt(2)\<close>, \<open>1/3\<close>, a rounded
  difference, an overflow and an underflow.
\<close>

lemma ieee_samples:
  "fl_add (Fin 3602879701896397 (- 55)) (Fin 3602879701896397 (- 54)) = Fin 1351079888211149 (- 52)"
  "fl_sqrt (Fin 1 1) = Fin 6369051672525773 (- 52)"
  "fl_div (Fin 1 0) (Fin 3 0) = Fin 6004799503160661 (- 54)"
  "fl_sub (Fin 3 53) (Fin 3 0) = Fin 6755399441055743 2"
  "fl_mul (Fin 1 1023) (Fin 1 1) = NonFin"
  "fl_mul (Fin 1 (- 600)) (Fin 1 (- 600)) = Fin 0 0"
  by code_simp+

text \<open>
  Normalising keeps the number, and a number that fits a double is not changed by
  rounding.
\<close>

lemma fl_value_halve: "even m \<Longrightarrow> fl_value (m div 2) (e + 1) = fl_value m e"
proof -
  assume ev: "even m"
  then obtain k where k: "m = 2 * k" by (auto elim: evenE)
  show ?thesis
  proof (cases "0 \<le> e")
    case True
    then show ?thesis using k by (simp add: fl_value_def nat_add_distrib)
  next
    case False
    then have "nat (- e) = Suc (nat (- (e + 1)))" by simp
    then show ?thesis using k False by (simp add: fl_value_def)
  qed
qed

lemma fl_norm_value: "fl_norm m e = Fin m' e' \<Longrightarrow> fl_value m' e' = fl_value m e"
proof (induction m e rule: fl_norm.induct)
  case (1 m e)
  show ?case
  proof (cases "m = 0")
    case True
    with "1.prems" show ?thesis by (simp add: fl_norm.simps fl_value_def)
  next
    case nz: False
    show ?thesis
    proof (cases "even m")
      case True
      with nz "1.prems" have "fl_norm (m div 2) (e + 1) = Fin m' e'"
        by (simp add: fl_norm.simps [of m e])
      with "1.IH" nz True have "fl_value m' e' = fl_value (m div 2) (e + 1)" by simp
      with True show ?thesis by (simp add: fl_value_halve)
    next
      case False
      with nz "1.prems" show ?thesis by (simp add: fl_norm.simps [of m e])
    qed
  qed
qed

lemma fl_round_exact:
  assumes "int (bit_length \<bar>m\<bar>) \<le> 53" and "- 1074 \<le> e"
    and "int (bit_length \<bar>m\<bar>) + e \<le> 1024"
  shows "fl_round m e = fl_norm m e"
  using assms by (simp add: fl_round_def Let_def fl_norm.simps [of 0 e])

lemma fl_round_zero: "fl_round 0 e = Fin 0 0"
  by (simp add: fl_round_def Let_def)

lemma fl_mul_zero_left: "fl_mul (Fin 0 0) s = (case s of Fin m e \<Rightarrow> Fin 0 0 | NonFin \<Rightarrow> NonFin)"
  by (cases s) (simp_all add: fl_round_zero)


text \<open>
  C5. The code does not keep the denominator positive. For the filament from
  \<open>(-5000, 0, 4000)\<close> to \<open>(13000, 4000, -12000)\<close>, \<open>\<Gamma> = 1\<close> and \<open>\<epsilon> = 1e-5\<close>, the
  observation point \<open>(4324, 2072, -4288)\<close>, which lies on the filament, gets the
  denominator \<open>-4926027238515251 / 2\<^sup>5\<^sup>0\<close>, about \<open>-4.375\<close>, with either floor of the
  smoothed norm: the sum of \<open>r1 \<cdot> r2\<close> and the dot product cancels to a negative
  rounding error, which the factor \<open>r1 \<cdot> r2\<close> magnifies beyond \<open>(\<epsilon> \<cdot> |r0|)\<^sup>2\<close>. Just off
  the line, where the second coordinate is larger by two to the power \<open>-24\<close>, the
  denominator is negative as well, and the velocity, about \<open>(-0.423, 0, -0.476)\<close>,
  points against the one exact arithmetic gives.
\<close>

theorem filament_fp_denominator_negative:
  "filament_den_fp fp_1em8
     (seg_data_fp (Fin 4324 0, Fin 2072 0, Fin (- 4288) 0) (Fin (- 5000) 0, Fin 0 0, Fin 4000 0)
        (Fin 13000 0, Fin 4000 0, Fin (- 12000) 0) (Fin 1 0) (Fin 5902958103587057 (- 69)))
     = Fin (- 4926027238515251) (- 50) \<and>
   filament_den_fp fp_1em16
     (seg_data_fp (Fin 4324 0, Fin 2072 0, Fin (- 4288) 0) (Fin (- 5000) 0, Fin 0 0, Fin 4000 0)
        (Fin 13000 0, Fin 4000 0, Fin (- 12000) 0) (Fin 1 0) (Fin 5902958103587057 (- 69)))
     = Fin (- 4926027238515251) (- 50) \<and>
   fl_value (- 4926027238515251) (- 50) < 0 \<and>
   filament_fp fp_1em8
     (seg_data_fp (Fin 4324 0, Fin 34762391553 (- 24), Fin (- 4288) 0)
        (Fin (- 5000) 0, Fin 0 0, Fin 4000 0)
        (Fin 13000 0, Fin 4000 0, Fin (- 12000) 0) (Fin 1 0) (Fin 5902958103587057 (- 69)))
     = Inr (Fin (- 7628446287518789) (- 54), Fin 0 0, Fin (- 4291001036729319) (- 53))"
proof -
  have "filament_den_fp fp_1em8
     (seg_data_fp (Fin 4324 0, Fin 2072 0, Fin (- 4288) 0) (Fin (- 5000) 0, Fin 0 0, Fin 4000 0)
        (Fin 13000 0, Fin 4000 0, Fin (- 12000) 0) (Fin 1 0) (Fin 5902958103587057 (- 69)))
     = Fin (- 4926027238515251) (- 50)"
    by code_simp
  moreover have "filament_den_fp fp_1em16
     (seg_data_fp (Fin 4324 0, Fin 2072 0, Fin (- 4288) 0) (Fin (- 5000) 0, Fin 0 0, Fin 4000 0)
        (Fin 13000 0, Fin 4000 0, Fin (- 12000) 0) (Fin 1 0) (Fin 5902958103587057 (- 69)))
     = Fin (- 4926027238515251) (- 50)"
    by code_simp
  moreover have "fl_value (- 4926027238515251) (- 50) < 0"
    by (simp add: fl_value_def)
  moreover have "filament_fp fp_1em8
     (seg_data_fp (Fin 4324 0, Fin 34762391553 (- 24), Fin (- 4288) 0)
        (Fin (- 5000) 0, Fin 0 0, Fin 4000 0)
        (Fin 13000 0, Fin 4000 0, Fin (- 12000) 0) (Fin 1 0) (Fin 5902958103587057 (- 69)))
     = Inr (Fin (- 7628446287518789) (- 54), Fin 0 0, Fin (- 4291001036729319) (- 53))"
    by code_simp
  ultimately show ?thesis by blast
qed





section \<open>Results on the structural tools\<close>

subsection \<open>Heights of the time-ordered and padded tables\<close>

lemma cas_index_in: "0 \<le> i \<Longrightarrow> i < int (length xs) \<Longrightarrow> cas_index xs i = Inr (xs ! nat i)"
  by (simp add: cas_index_def)

lemma reshape_column: "length v = r * c \<Longrightarrow> cas_reshape (column v) (r, c) = Inr \<lparr>nrows = r, ncols = c, elems = v\<rparr>"
  by (simp add: cas_reshape_def column_def)

lemma length_concat_const: "(\<And>x. x \<in> set xs \<Longrightarrow> length (f x) = k) \<Longrightarrow> length (concat (map f xs)) = length xs * k"
  by (induction xs) auto

lemma mat_T_shape: "nrows (mat_T m) = ncols m" "ncols (mat_T m) = nrows m"
  "length (elems (mat_T m)) = nrows m * ncols m"
  by (simp_all add: mat_T_def length_concat_const)

lemma time_order_length:
  assumes "length v = n_k * d"
  shows "\<exists>xs. (case cas_reshape (column v) (n_k, d) of
           Inl e \<Rightarrow> Inl e
         | Inr var_reshape \<Rightarrow>
             (case cas_reshape (mat_T var_reshape) (n_k * d, 1) of
                Inl e \<Rightarrow> Inl e
              | Inr time_ordered \<Rightarrow> Inr (rev (elems time_ordered)))) = Inr xs \<and> length xs = n_k * d"
proof -
  have "cas_reshape (mat_T \<lparr>nrows = n_k, ncols = d, elems = v\<rparr>) (n_k * d, 1)
          = Inr \<lparr>nrows = n_k * d, ncols = 1,
                 elems = elems (mat_T \<lparr>nrows = n_k, ncols = d, elems = v\<rparr>)\<rparr>"
    by (simp add: cas_reshape_def mat_T_shape mult.commute)
  then show ?thesis
    using assms by (simp add: reshape_column mat_T_shape)
qed

lemma without_start_length:
  assumes "length var = n_k * d + 1"
  shows "\<exists>xs. get_time_ordered_wake_var_without_start n_k d var = Inr xs \<and> length xs = n_k * d"
  unfolding get_time_ordered_wake_var_without_start_def Let_def
  using assms by (intro time_order_length) simp

lemma with_start_length:
  assumes "length var = n_k * d + 1"
  shows "\<exists>xs. get_time_ordered_wake_var_with_start n_k d var = Inr xs \<and> length xs = n_k * d + 1"
proof -
  have "var \<noteq> []" using assms by auto
  then have "cas_index var 0 = Inr (var ! 0)"
    by (simp add: cas_index_def)
  then show ?thesis
    using without_start_length [OF assms]
    by (auto simp add: get_time_ordered_wake_var_with_start_def)
qed

text \<open>
  A strength stream is reshaped whole: it has \<open>n_k \<cdot> d\<close> samples, one fewer than a
  position stream. One sample more and the reshape fails.
\<close>

lemma strength_stream_too_long:
  "length var = n_k * d + 1 \<Longrightarrow> get_time_ordered_strength n_k d var = Inl ReshapeMismatch"
  by (simp add: get_time_ordered_strength_def cas_reshape_def column_def)

lemma strength_length:
  assumes "length var = n_k * d"
  shows "\<exists>xs. get_time_ordered_strength n_k d var = Inr xs \<and> length xs = n_k * d"
  unfolding get_time_ordered_strength_def Let_def
  using assms by (intro time_order_length) simp


lemma cas_index_last: "xs \<noteq> [] \<Longrightarrow> cas_index xs (- 1) = Inr (last xs)"
  by (simp add: cas_index_def Let_def last_conv_nth nat_diff_distrib' int_ops(6) Suc_leI)

lemma points_period_loop_length:
  assumes "\<And>p. p \<in> set periods \<Longrightarrow>
             \<exists>v. variables_xd (wake_var_name ''w'' dm tip p kite parent) = Some v \<and> length v = n_k * d + 1"
  shows "\<exists>xs. points_period_loop variables_xd n_k d kite parent tip dm periods acc = Inr xs \<and>
              length xs = length acc + length periods * (n_k * d)"
  using assms
proof (induction periods arbitrary: acc)
  case Nil
  then show ?case by simp
next
  case (Cons p periods)
  obtain v where v: "variables_xd (wake_var_name ''w'' dm tip p kite parent) = Some v"
      "length v = n_k * d + 1"
    using Cons.prems [of p] by auto
  obtain ys where ys: "get_time_ordered_wake_var_without_start n_k d v = Inr ys"
      "length ys = n_k * d"
    using without_start_length [OF v(2)] by auto
  obtain xs where "points_period_loop variables_xd n_k d kite parent tip dm periods (acc @ ys) = Inr xs"
      "length xs = length (acc @ ys) + length periods * (n_k * d)"
    using Cons.IH [of "acc @ ys"] Cons.prems by auto
  then show ?case using v ys by simp
qed

lemma strengths_period_loop_length:
  assumes "\<And>p. p \<in> set periods \<Longrightarrow>
             \<exists>v. variables_xl (gamma_name p kite parent) = Some v \<and> length v = n_k * d"
  shows "\<exists>xs. strengths_period_loop variables_xl n_k d kite parent periods acc = Inr xs \<and>
              length xs = length acc + length periods * (n_k * d)"
  using assms
proof (induction periods arbitrary: acc)
  case Nil
  then show ?case by simp
next
  case (Cons p periods)
  obtain v where v: "variables_xl (gamma_name p kite parent) = Some v" "length v = n_k * d"
    using Cons.prems [of p] by auto
  obtain ys where ys: "get_time_ordered_strength n_k d v = Inr ys" "length ys = n_k * d"
    using strength_length [OF v(2)] by auto
  obtain xs where "strengths_period_loop variables_xl n_k d kite parent periods (acc @ ys) = Inr xs"
      "length xs = length (acc @ ys) + length periods * (n_k * d)"
    using Cons.IH [of "acc @ ys"] Cons.prems by auto
  then show ?case using v ys by simp
qed


lemma points_one_dim_length:
  assumes P: "1 \<le> periods_tracked"
    and pres: "\<And>period. period < periods_tracked \<Longrightarrow>
             \<exists>v. variables_xd (wake_var_name ''w'' dm tip (int period) kite parent) = Some v
                 \<and> length v = n_k * d + 1"
  shows "\<exists>xs. points_one_dim variables_xd n_k d periods_tracked kite parent tip dm = Inr xs \<and>
              length xs = periods_tracked * n_k * d + 1"
proof -
  have "\<exists>xs. points_period_loop variables_xd n_k d kite parent tip dm
                (map int [0..<periods_tracked - 1]) [] = Inr xs \<and>
              length xs = length ([] :: real list)
                          + length (map int [0..<periods_tracked - 1]) * (n_k * d)"
    by (rule points_period_loop_length) (use pres in auto)
  then obtain ys where ys: "points_period_loop variables_xd n_k d kite parent tip dm
                         (map int [0..<periods_tracked - 1]) [] = Inr ys"
      "length ys = (periods_tracked - 1) * (n_k * d)"
    by auto
  have last: "int periods_tracked - 1 = int (periods_tracked - 1)" using P by simp
  obtain v where v: "variables_xd (wake_var_name ''w'' dm tip (int periods_tracked - 1) kite parent) = Some v"
      "length v = n_k * d + 1"
    using pres [of "periods_tracked - 1"] P unfolding last by auto
  obtain zs where zs: "get_time_ordered_wake_var_with_start n_k d v = Inr zs"
      "length zs = n_k * d + 1"
    using with_start_length [OF v(2)] by auto
  have "(periods_tracked - 1) * (n_k * d) + (n_k * d + 1) = periods_tracked * n_k * d + 1"
    using P by (cases periods_tracked) (simp_all add: algebra_simps)
  then show ?thesis
    using ys v zs by (simp add: points_one_dim_def Let_def)
qed

lemma all_points_length:
  assumes P: "1 \<le> periods_tracked"
    and pres: "\<And>period dm. period < periods_tracked \<Longrightarrow> dm \<in> {''x'', ''y'', ''z''} \<Longrightarrow>
             \<exists>v. variables_xd (wake_var_name ''w'' dm tip (int period) kite parent) = Some v
                 \<and> length v = n_k * d + 1"
  shows "\<exists>pts. get_all_time_ordered_points_by_kite_and_tip variables_xd n_k d periods_tracked
                 kite parent tip = Inr pts \<and> length pts = periods_tracked * n_k * d + 1"
proof -
  obtain xs where xs: "points_one_dim variables_xd n_k d periods_tracked kite parent tip ''x'' = Inr xs"
      "length xs = periods_tracked * n_k * d + 1"
    using points_one_dim_length [OF P, of variables_xd "''x''" tip kite parent n_k d] pres by auto
  obtain ys where ys: "points_one_dim variables_xd n_k d periods_tracked kite parent tip ''y'' = Inr ys"
      "length ys = periods_tracked * n_k * d + 1"
    using points_one_dim_length [OF P, of variables_xd "''y''" tip kite parent n_k d] pres by auto
  obtain zs where zs: "points_one_dim variables_xd n_k d periods_tracked kite parent tip ''z'' = Inr zs"
      "length zs = periods_tracked * n_k * d + 1"
    using points_one_dim_length [OF P, of variables_xd "''z''" tip kite parent n_k d] pres by auto
  have "points_dims_loop variables_xd n_k d periods_tracked kite parent tip [''x'', ''y'', ''z''] []
          = Inr [xs, ys, zs]"
    using xs ys zs by (simp add: cas_horzcat_def)
  then show ?thesis
    using xs ys zs by (simp add: get_all_time_ordered_points_by_kite_and_tip_def)
qed

lemma padded_points_length:
  assumes P: "1 \<le> periods_tracked"
    and pres: "\<And>period dm. period < periods_tracked \<Longrightarrow> dm \<in> {''x'', ''y'', ''z''} \<Longrightarrow>
             \<exists>v. variables_xd (wake_var_name ''w'' dm tip (int period) kite parent) = Some v
                 \<and> length v = n_k * d + 1"
  shows "\<exists>pts. get_padded_points_by_kite_and_tip variables_xd n_k d periods_tracked
                 kite parent tip u_vec_ref infinite_time = Inr pts
               \<and> length pts = periods_tracked * n_k * d + 3"
proof -
  obtain reg where reg: "get_all_time_ordered_points_by_kite_and_tip variables_xd n_k d
                           periods_tracked kite parent tip = Inr reg"
      "length reg = periods_tracked * n_k * d + 1"
    using all_points_length [OF P, of variables_xd tip kite parent n_k d] pres by blast
  have ne: "reg \<noteq> []" using reg(2) by auto
  have "cas_index reg 0 = Inr (reg ! 0)" using ne by (simp add: cas_index_def)
  moreover have "cas_index reg (- 1) = Inr (last reg)" using ne by (rule cas_index_last)
  ultimately show ?thesis
    using reg by (simp add: get_padded_points_by_kite_and_tip_def Let_def)
qed

lemma padded_strengths_length:
  assumes "1 \<le> n_k" "1 \<le> d" "1 \<le> periods_tracked"
    and pres: "\<And>period. period < periods_tracked \<Longrightarrow>
             \<exists>g. variables_xl (gamma_name (int period) kite parent) = Some g \<and> length g = n_k * d"
  shows "\<exists>ps. get_padded_strengths_by_kite variables_xl n_k d periods_tracked kite parent = Inr ps
              \<and> length ps = periods_tracked * n_k * d + 2"
proof -
  have "\<exists>xs. strengths_period_loop variables_xl n_k d kite parent
                (map int [0..<periods_tracked]) [] = Inr xs \<and>
              length xs = length ([] :: real list)
                          + length (map int [0..<periods_tracked]) * (n_k * d)"
    by (rule strengths_period_loop_length) (use pres in auto)
  then obtain reg where reg: "get_all_time_ordered_strengths_by_kite variables_xl n_k d
                           periods_tracked kite parent = Inr reg"
      "length reg = periods_tracked * (n_k * d)"
    by (auto simp add: get_all_time_ordered_strengths_by_kite_def)
  have "0 < periods_tracked * (n_k * d)" using assms(1-3) by simp
  then have ne: "reg \<noteq> []" using reg(2) by auto
  have "cas_index reg (- 1) = Inr (last reg)" using ne by (rule cas_index_last)
  then show ?thesis
    using reg by (simp add: get_padded_strengths_by_kite_def Let_def)
qed

lemma ring_ok:
  assumes "1 \<le> rdx" "rdx < int (length ps)" "length pint = length ps + 1" "length pext = length ps + 1"
  shows "get_vortex_ring_filaments ps pext pint rdx =
    Inr [(pint ! nat (rdx + 1), pint ! nat rdx, ps ! nat rdx),
         (pint ! nat rdx, pext ! nat rdx, ps ! nat rdx - ps ! nat (rdx - 1)),
         (pext ! nat rdx, pext ! nat (rdx + 1), ps ! nat rdx)]"
  using assms by (simp add: get_vortex_ring_filaments_def cas_index_in)

lemma rings_loop_length:
  assumes "length pint = length ps + 1" "length pext = length ps + 1"
    and "\<And>rdx. rdx \<in> set rdxs \<Longrightarrow> 1 \<le> rdx \<and> rdx < int (length ps)"
  shows "\<exists>rows. rings_loop ps pext pint rdxs acc = Inr rows \<and>
               length rows = length acc + 3 * length rdxs"
  using assms(3)
proof (induction rdxs arbitrary: acc)
  case Nil
  then show ?case by simp
next
  case (Cons rdx rdxs)
  have "1 \<le> rdx" "rdx < int (length ps)" using Cons.prems [of rdx] by auto
  from ring_ok [OF this assms(1,2)]
  obtain ring where ring: "get_vortex_ring_filaments ps pext pint rdx = Inr ring" "length ring = 3"
    by auto
  obtain rows where "rings_loop ps pext pint rdxs (acc @ ring) = Inr rows"
      "length rows = length (acc @ ring) + 3 * length rdxs"
    using Cons.IH [of "acc @ ring"] Cons.prems by auto
  then show ?case using ring by simp
qed

text \<open>
  C4, amended. For \<open>n_k \<ge> 1\<close>, \<open>d \<ge> 1\<close>, \<open>periods_tracked \<ge> 1\<close> and input streams of the
  lengths the code reads (\<open>streams_present\<close>: position streams of \<open>n_k \<cdot> d + 1\<close> samples,
  strength streams of \<open>n_k \<cdot> d\<close> samples), the ring count per kite is
  \<open>periods_tracked \<cdot> n_k \<cdot> d + 2\<close>, it is the height of the padded strength column that
  \<open>get_list_of_filaments_by_kite\<close> reads as \<open>n_rings\<close>, and the filament list of the kite
  is built without error and has exactly \<open>3 \<cdot> (periods_tracked \<cdot> n_k \<cdot> d + 1)\<close> rows.
\<close>

theorem ring_and_filament_count:
  assumes "1 \<le> n_k" "1 \<le> d" "1 \<le> periods_tracked"
    and "streams_present variables_xd variables_xl n_k d periods_tracked kite parent"
  shows "get_number_of_rings_per_kite n_k d periods_tracked = periods_tracked * n_k * d + 2 \<and>
         (\<exists>padded_strengths.
            get_padded_strengths_by_kite variables_xl n_k d periods_tracked kite parent
              = Inr padded_strengths \<and>
            length padded_strengths = get_number_of_rings_per_kite n_k d periods_tracked) \<and>
         (\<exists>filaments.
            get_list_of_filaments_by_kite
              \<lparr>args_variables_xd = variables_xd, args_variables_xl = variables_xl,
               args_u_vec_ref = u_vec_ref, args_infinite_time = infinite_time,
               args_periods_tracked = periods_tracked, args_n_k = n_k, args_d = d,
               args_kite = kite, args_parent = parent\<rparr> = Inr filaments \<and>
            length filaments = 3 * (periods_tracked * n_k * d + 1))"
proof -
  let ?N = "periods_tracked * n_k * d"
  obtain ps where ps: "get_padded_strengths_by_kite variables_xl n_k d periods_tracked kite parent = Inr ps"
      "length ps = ?N + 2"
    using padded_strengths_length [OF assms(1-3), of variables_xl kite parent] assms(4)
    unfolding streams_present_def by blast
  obtain pint where pint: "get_padded_points_by_kite_and_tip variables_xd n_k d periods_tracked
        kite parent ''int'' u_vec_ref infinite_time = Inr pint" "length pint = ?N + 3"
    using padded_points_length [OF assms(3), of variables_xd "''int''" kite parent n_k d] assms(4)
    unfolding streams_present_def by blast
  obtain pext where pext: "get_padded_points_by_kite_and_tip variables_xd n_k d periods_tracked
        kite parent ''ext'' u_vec_ref infinite_time = Inr pext" "length pext = ?N + 3"
    using padded_points_length [OF assms(3), of variables_xd "''ext''" kite parent n_k d] assms(4)
    unfolding streams_present_def by blast
  have l1: "length pint = length ps + 1" using ps(2) pint(2) by simp
  have l2: "length pext = length ps + 1" using ps(2) pext(2) by simp
  have "\<exists>rows. rings_loop ps pext pint (map int [1..<length ps]) [] = Inr rows \<and>
               length rows = length ([] :: filament_row list)
                             + 3 * length (map int [1..<length ps])"
    by (rule rings_loop_length) (use l1 l2 in auto)
  then obtain rows where rows: "rings_loop ps pext pint (map int [1..<length ps]) [] = Inr rows"
      "length rows = 3 * (length ps - 1)"
    by auto
  have "get_list_of_filaments_by_kite
              \<lparr>args_variables_xd = variables_xd, args_variables_xl = variables_xl,
               args_u_vec_ref = u_vec_ref, args_infinite_time = infinite_time,
               args_periods_tracked = periods_tracked, args_n_k = n_k, args_d = d,
               args_kite = kite, args_parent = parent\<rparr> = Inr rows"
    using ps(1) pint(1) pext(1) rows(1) by (simp add: get_list_of_filaments_by_kite_def Let_def)
  moreover have "length rows = 3 * (?N + 1)" using rows(2) ps(2) by simp
  ultimately show ?thesis
    using ps by (simp add: get_number_of_rings_per_kite_def)
qed

subsection \<open>The ring builder\<close>

lemma example_padded:
  "get_padded_strengths_by_kite example_xl 2 1 1 1 0 = Inr example_padded_strengths"
  "get_padded_points_by_kite_and_tip example_xd 2 1 1 1 0 ''int'' (1, 0, 0) 1000 = Inr example_padded_points_int"
  "get_padded_points_by_kite_and_tip example_xd 2 1 1 1 0 ''ext'' (1, 0, 0) 1000 = Inr example_padded_points_ext"
  by code_simp+

text \<open>
  C2. For a ring index \<open>rdx\<close> in \<open>[1, n_rings)\<close>, with \<open>n_rings\<close> the height of the padded
  strength column and padded point tables one row higher, the ring builder returns
  exactly three rows: interior trailing to interior leading with the ring's strength,
  interior leading to exterior leading with the ring's strength minus the previous
  ring's, exterior leading to exterior trailing with the ring's strength. There is no
  fourth row.
\<close>

theorem vortex_ring_three_segments:
  assumes "1 \<le> rdx" and "rdx < int (length padded_strengths)"
    and "length padded_points_int = length padded_strengths + 1"
    and "length padded_points_ext = length padded_strengths + 1"
  shows "get_vortex_ring_filaments padded_strengths padded_points_ext padded_points_int rdx =
    Inr [(padded_points_int ! nat (rdx + 1), padded_points_int ! nat rdx,
            padded_strengths ! nat rdx),
         (padded_points_int ! nat rdx, padded_points_ext ! nat rdx,
            padded_strengths ! nat rdx - padded_strengths ! nat (rdx - 1)),
         (padded_points_ext ! nat rdx, padded_points_ext ! nat (rdx + 1),
            padded_strengths ! nat rdx)]"
  using assms by (rule ring_ok)

theorem vortex_ring_three_segments_witness:
  "get_vortex_ring_filaments example_padded_strengths example_padded_points_ext
     example_padded_points_int 2 =
   Inr [((0, 0, 0), (1, 0, 0), 3), ((1, 0, 0), (1, 1, 0), - 2), ((1, 1, 0), (0, 1, 0), 3)]"
  using vortex_ring_three_segments [of 2 example_padded_strengths example_padded_points_int
          example_padded_points_ext]
  by (simp add: example_padded_strengths_def example_padded_points_int_def
        example_padded_points_ext_def)

text \<open>
  C3, as stated, fails. On the padded tables of the small configuration, ring 1 has the
  strengths 5, 5, 5: their sum is 15, not zero. Closing the ring with its fourth edge,
  which is the shared segment of ring 2 (strength \<open>-2\<close>), in either direction, does not
  give zero either.
\<close>

theorem ring_strengths_sum_counterexample:
  "get_vortex_ring_filaments example_padded_strengths example_padded_points_ext
     example_padded_points_int 1 =
     Inr [((1, 0, 0), (2, 0, 0), 5), ((2, 0, 0), (2, 1, 0), 5), ((2, 1, 0), (1, 1, 0), 5)] \<and>
   ring_strength_sum
     [((1, 0, 0), (2, 0, 0), 5), ((2, 0, 0), (2, 1, 0), 5), ((2, 1, 0), (1, 1, 0), 5)] = 15 \<and>
   get_vortex_ring_filaments example_padded_strengths example_padded_points_ext
     example_padded_points_int 2 =
     Inr [((0, 0, 0), (1, 0, 0), 3), ((1, 0, 0), (1, 1, 0), - 2), ((1, 1, 0), (0, 1, 0), 3)] \<and>
   ring_strength_sum
     [((1, 0, 0), (2, 0, 0), 5), ((2, 0, 0), (2, 1, 0), 5), ((2, 1, 0), (1, 1, 0), 5)]
     + strength_of ((1, 0, 0), (1, 1, 0), - 2) \<noteq> 0 \<and>
   ring_strength_sum
     [((1, 0, 0), (2, 0, 0), 5), ((2, 0, 0), (2, 1, 0), 5), ((2, 1, 0), (1, 1, 0), 5)]
     - strength_of ((1, 0, 0), (1, 1, 0), - 2) \<noteq> 0"
  by (simp add: get_vortex_ring_filaments_def cas_index_def ring_strength_sum_def
        example_padded_strengths_def example_padded_points_int_def
        example_padded_points_ext_def)

text \<open>
  C3, amended. For a ring index \<open>rdx\<close> in \<open>[1, n_rings)\<close> the shared segment, from the
  interior leading to the exterior leading point, carries the ring's strength minus the
  previous ring's. The strengths around the ring do not sum to zero in general.
\<close>

theorem ring_shared_segment_strength:
  assumes "1 \<le> rdx" and "rdx < int (length padded_strengths)"
    and "length padded_points_int = length padded_strengths + 1"
    and "length padded_points_ext = length padded_strengths + 1"
  shows "\<exists>a b c.
     get_vortex_ring_filaments padded_strengths padded_points_ext padded_points_int rdx
       = Inr [a, b, c] \<and>
     start_point_of b = padded_points_int ! nat rdx \<and>
     end_point_of b = padded_points_ext ! nat rdx \<and>
     strength_of b = padded_strengths ! nat rdx - padded_strengths ! nat (rdx - 1)"
proof -
  let ?a = "(padded_points_int ! nat (rdx + 1), padded_points_int ! nat rdx,
             padded_strengths ! nat rdx)"
  let ?b = "(padded_points_int ! nat rdx, padded_points_ext ! nat rdx,
             padded_strengths ! nat rdx - padded_strengths ! nat (rdx - 1))"
  let ?c = "(padded_points_ext ! nat rdx, padded_points_ext ! nat (rdx + 1),
             padded_strengths ! nat rdx)"
  have ring: "get_vortex_ring_filaments padded_strengths padded_points_ext padded_points_int rdx
                = Inr [?a, ?b, ?c]"
    using assms by (rule ring_ok)
  have "start_point_of ?b = padded_points_int ! nat rdx \<and>
        end_point_of ?b = padded_points_ext ! nat rdx \<and>
        strength_of ?b = padded_strengths ! nat rdx - padded_strengths ! nat (rdx - 1)"
    by simp
  with ring show ?thesis by blast
qed

theorem ring_shared_segment_strength_witness:
  "\<exists>a b c.
     get_vortex_ring_filaments example_padded_strengths example_padded_points_ext
       example_padded_points_int 2 = Inr [a, b, c] \<and>
     start_point_of b = (1, 0, 0) \<and> end_point_of b = (1, 1, 0) \<and> strength_of b = 3 - 5"
  using ring_shared_segment_strength [of 2 example_padded_strengths example_padded_points_int
          example_padded_points_ext]
  by (simp add: example_padded_strengths_def example_padded_points_int_def
        example_padded_points_ext_def)

text \<open>
  C9, as stated, fails. The index 0 is outside \<open>[1, n_rings)\<close>, yet the builder returns
  three rows: \<open>padded_strengths[rdx - 1]\<close> is \<open>padded_strengths[-1]\<close>, which CasADi reads
  from the end of the column.
\<close>

theorem ring_index_zero_counterexample:
  "get_vortex_ring_filaments example_padded_strengths example_padded_points_ext
     example_padded_points_int 0 =
   Inr [((2, 0, 0), (- 998, 0, 0), 0), ((- 998, 0, 0), (- 998, 1, 0), - 3),
        ((- 998, 1, 0), (2, 1, 0), 0)]"
  by (simp add: get_vortex_ring_filaments_def cas_index_def
        example_padded_strengths_def example_padded_points_int_def
        example_padded_points_ext_def)

text \<open>
  C9, amended. With \<open>n_rings\<close> the height of the padded strength column and point
  tables one row higher, the builder fails with an out-of-bounds index error exactly
  for \<open>rdx \<ge> n_rings\<close> and for \<open>rdx \<le> - n_rings\<close>; for every index strictly between
  \<open>- n_rings\<close> and \<open>n_rings\<close> it returns three rows, the indices below 1 being read from
  the end of the tables.
\<close>

theorem ring_index_failure:
  assumes "length padded_points_int = length padded_strengths + 1"
    and "length padded_points_ext = length padded_strengths + 1"
  shows "(int (length padded_strengths) \<le> rdx \<or> rdx \<le> - int (length padded_strengths) \<longrightarrow>
            get_vortex_ring_filaments padded_strengths padded_points_ext padded_points_int rdx
              = Inl IndexOutOfBounds) \<and>
         (- int (length padded_strengths) < rdx \<and> rdx < int (length padded_strengths) \<longrightarrow>
            (\<exists>ring. get_vortex_ring_filaments padded_strengths padded_points_ext
                      padded_points_int rdx = Inr ring \<and> length ring = 3))"
  using assms
  by (auto simp add: get_vortex_ring_filaments_def cas_index_def Let_def)

theorem ring_index_failure_witness:
  "get_vortex_ring_filaments example_padded_strengths example_padded_points_ext
     example_padded_points_int 4 = Inl IndexOutOfBounds \<and>
   get_vortex_ring_filaments example_padded_strengths example_padded_points_ext
     example_padded_points_int (- 4) = Inl IndexOutOfBounds \<and>
   (\<exists>ring. get_vortex_ring_filaments example_padded_strengths example_padded_points_ext
             example_padded_points_int (- 3) = Inr ring \<and> length ring = 3)"
  using ring_index_failure [of example_padded_points_int example_padded_strengths
          example_padded_points_ext 4]
        ring_index_failure [of example_padded_points_int example_padded_strengths
          example_padded_points_ext "- 4"]
        ring_index_failure [of example_padded_points_int example_padded_strengths
          example_padded_points_ext "- 3"]
  by (simp add: example_padded_strengths_def example_padded_points_int_def
        example_padded_points_ext_def)


subsection \<open>Wake extension and the assembly\<close>

lemma names:
  "wake_var_name symb dm tip 0 (Suc 0) 0 = symb @ dm @ ''_'' @ tip @ ''_0_10''"
  "gamma_name 0 (Suc 0) 0 = ''wg_0_10''"
  by (simp_all add: wake_var_name_def gamma_name_def str_def digit_char_def)

lemma example_streams_present: "streams_present example_xd example_xl 2 1 1 1 0"
  by (simp add: streams_present_def names example_xd_def example_xl_def)

lemma example_points_int:
  "get_all_time_ordered_points_by_kite_and_tip example_xd 2 1 1 1 0 ''int''
     = Inr [(2, 0, 0), (1, 0, 0), (0, 0, 0)]"
  by code_simp

text \<open>
  C7, as stated, fails. The assembly \<open>get_list_of_all_filaments\<close> takes no distance: on
  the small configuration with \<open>u_vec_ref = (1, 0, 0)\<close> it puts the trailing extension
  point 1000 beyond the trailing point \<open>(0, 0, 0)\<close>, and the table differs from the one
  that the distance 2000 gives.
\<close>

theorem assembly_distance_counterexample:
  "get_list_of_all_filaments example_xd example_xl example_architecture (1, 0, 0) 1 2 1 =
     Inr [((1, 0, 0), (2, 0, 0), 5), ((2, 0, 0), (2, 1, 0), 5), ((2, 1, 0), (1, 1, 0), 5),
          ((0, 0, 0), (1, 0, 0), 3), ((1, 0, 0), (1, 1, 0), - 2), ((1, 1, 0), (0, 1, 0), 3),
          ((1000, 0, 0), (0, 0, 0), 3), ((0, 0, 0), (0, 1, 0), 0), ((0, 1, 0), (1000, 1, 0), 3)] \<and>
   get_list_of_filaments_by_kite (example_args 2000) =
     Inr [((1, 0, 0), (2, 0, 0), 5), ((2, 0, 0), (2, 1, 0), 5), ((2, 1, 0), (1, 1, 0), 5),
          ((0, 0, 0), (1, 0, 0), 3), ((1, 0, 0), (1, 1, 0), - 2), ((1, 1, 0), (0, 1, 0), 3),
          ((2000, 0, 0), (0, 0, 0), 3), ((0, 0, 0), (0, 1, 0), 0), ((0, 1, 0), (2000, 1, 0), 3)] \<and>
   get_list_of_all_filaments example_xd example_xl example_architecture (1, 0, 0) 1 2 1 \<noteq>
     get_list_of_filaments_by_kite (example_args 2000)"
proof -
  have a: "get_list_of_all_filaments example_xd example_xl example_architecture (1, 0, 0) 1 2 1 =
     Inr [((1, 0, 0), (2, 0, 0), 5), ((2, 0, 0), (2, 1, 0), 5), ((2, 1, 0), (1, 1, 0), 5),
          ((0, 0, 0), (1, 0, 0), 3), ((1, 0, 0), (1, 1, 0), - 2), ((1, 1, 0), (0, 1, 0), 3),
          ((1000, 0, 0), (0, 0, 0), 3), ((0, 0, 0), (0, 1, 0), 0), ((0, 1, 0), (1000, 1, 0), 3)]"
    by code_simp
  have b: "get_list_of_filaments_by_kite (example_args 2000) =
     Inr [((1, 0, 0), (2, 0, 0), 5), ((2, 0, 0), (2, 1, 0), 5), ((2, 1, 0), (1, 1, 0), 5),
          ((0, 0, 0), (1, 0, 0), 3), ((1, 0, 0), (1, 1, 0), - 2), ((1, 1, 0), (0, 1, 0), 3),
          ((2000, 0, 0), (0, 0, 0), 3), ((0, 0, 0), (0, 1, 0), 0), ((0, 1, 0), (2000, 1, 0), 3)]"
    by code_simp
  show ?thesis unfolding a b by simp
qed

lemma vadd_neg_scale: "vadd a (scale_vec (- t) u) = vsub a (scale_vec t u)"
  by (cases a; cases u) simp

text \<open>
  C7, amended. \<open>get_padded_points_by_kite_and_tip\<close> puts in front of the time-ordered
  points the leading point minus \<open>infinite_time \<cdot> u_vec_ref\<close> and behind them the trailing
  point plus \<open>infinite_time \<cdot> u_vec_ref\<close>, where \<open>infinite_time\<close> is an argument of that
  function; the assembly \<open>get_list_of_all_filaments\<close> calls it with the fixed value 1000.
\<close>

theorem wake_extension_points:
  assumes "get_all_time_ordered_points_by_kite_and_tip variables_xd n_k d periods_tracked
             kite parent tip = Inr regular"
    and "regular \<noteq> []"
  shows "get_padded_points_by_kite_and_tip variables_xd n_k d periods_tracked kite parent tip
           u_vec_ref infinite_time =
           Inr ([vsub (hd regular) (scale_vec infinite_time u_vec_ref)] @ regular
                @ [vadd (last regular) (scale_vec infinite_time u_vec_ref)]) \<and>
         get_list_of_all_filaments variables_xd variables_xl arch u_vec_ref periods_tracked n_k d =
           kites_loop variables_xd variables_xl (parent_map arch) u_vec_ref 1000
             periods_tracked n_k d (kite_nodes arch) []"
proof -
  have "cas_index regular 0 = Inr (hd regular)"
    using assms(2) by (simp add: cas_index_def hd_conv_nth)
  moreover have "cas_index regular (- 1) = Inr (last regular)"
    using assms(2) by (rule cas_index_last)
  ultimately show ?thesis
    using assms(1)
    by (simp add: get_padded_points_by_kite_and_tip_def get_list_of_all_filaments_def
          vadd_neg_scale Let_def)
qed

theorem wake_extension_points_witness:
  "get_padded_points_by_kite_and_tip example_xd 2 1 1 1 0 ''int'' (1, 0, 0) 2000 =
     Inr [(- 1998, 0, 0), (2, 0, 0), (1, 0, 0), (0, 0, 0), (2000, 0, 0)] \<and>
   get_list_of_all_filaments example_xd example_xl example_architecture (1, 0, 0) 1 2 1 =
     kites_loop example_xd example_xl (parent_map example_architecture) (1, 0, 0) 1000
       1 2 1 (kite_nodes example_architecture) []"
  using wake_extension_points [OF example_points_int, of "(1, 0, 0)" 2000 example_xl
          example_architecture]
  by simp

subsection \<open>Variable lookup\<close>

text \<open>
  C8. The lookup of an unknown variable name does not fail as the spec has it. With the position stream of the \<open>x\<close>
  component present and those of \<open>y\<close> and \<open>z\<close> missing, \<open>get_vector_var\<close> logs
  "No such variable known." twice and returns a vector, built three times from the
  \<open>x\<close> stream that \<open>comp_all\<close> still holds.
\<close>

theorem get_vector_var_missing_component:
  "get_vector_var \<lparr>opt_n_k = 2, opt_d = 1\<rparr> [''xd'' \<mapsto> [''wx_int_0_10'' \<mapsto> [0, 1, 2]]]
     ''pos'' ''int'' 0 1 example_architecture False 0 0 =
   ([''No such variable known.'', ''No such variable known.''], Inr [1, 1, 1])"
  by code_simp

text \<open>
  Where the lookup does fail, it fails with an \<open>UnboundLocalError\<close> at the first read of
  the unbound local, after the message is logged.
\<close>

lemma get_vector_var_unknown_selector:
  assumes "pos_vel \<noteq> ''pos''" and "pos_vel \<noteq> ''vel''" and "parent_map arch kite = Some parent"
  shows "get_vector_var options variables pos_vel tip period kite arch start ndx ddx =
    ([''Unknown vector type. Please choose either pos (position) or vel (velocity).''],
     Inl (UnboundLocalError ''sym''))"
  using assms by (simp add: get_vector_var_def)

lemma get_vector_var_first_component_missing:
  assumes "pos_vel = ''pos''" and "parent_map arch kite = Some parent"
    and "variables ''xd'' = Some xd"
    and "xd (wake_var_name ''w'' ''x'' tip period kite parent) = None"
  shows "get_vector_var options variables pos_vel tip period kite arch start ndx ddx =
    ([''No such variable known.''], Inl (UnboundLocalError ''comp_all''))"
  using assms by (simp add: get_vector_var_def)

text \<open>
  C4, as stated, fails. With every stream \<open>n_k \<cdot> d + 1\<close> samples long, the length the
  spec gives for position and strength streams alike, the reshape of the strength
  stream to \<open>(n_k, d)\<close> fails and no filament list is built.
\<close>

theorem filament_count_counterexample:
  "get_list_of_filaments_by_kite
     \<lparr>args_variables_xd = example_xd, args_variables_xl = example_xl_long,
      args_u_vec_ref = (1, 0, 0), args_infinite_time = 1000,
      args_periods_tracked = 1, args_n_k = 2, args_d = 1,
      args_kite = 1, args_parent = 0\<rparr> = Inl ReshapeMismatch"
  by code_simp

text \<open>The count of C4 on the small configuration: 4 rings, 9 filament rows.\<close>

theorem ring_and_filament_count_witness:
  "get_number_of_rings_per_kite 2 1 1 = 4 \<and>
   (\<exists>padded_strengths.
      get_padded_strengths_by_kite example_xl 2 1 1 1 0 = Inr padded_strengths \<and>
      length padded_strengths = 4) \<and>
   (\<exists>filaments.
      get_list_of_filaments_by_kite
        \<lparr>args_variables_xd = example_xd, args_variables_xl = example_xl,
         args_u_vec_ref = (1, 0, 0), args_infinite_time = 1000,
         args_periods_tracked = 1, args_n_k = 2, args_d = 1,
         args_kite = 1, args_parent = 0\<rparr> = Inr filaments \<and>
      length filaments = 9)"
  using ring_and_filament_count [of 2 1 1 example_xd example_xl 1 0 "(1, 0, 0)" 1000]
    example_streams_present
  by (simp add: get_number_of_rings_per_kite_def)

end
